theory Spec2Isabelle
  imports Complex_Main
begin

section \<open>Python values, exceptions and list access\<close>

text \<open>
  The module under verification is \<^verbatim>\<open>lib/model/recycle_gan.py\<close>, the class
  \<^verbatim>\<open>ReCycleGAN\<close>. Every raise of the source is a value of \<open>py_error\<close>: the three
  explicit \<^verbatim>\<open>raise Exception(...)\<close> of \<^verbatim>\<open>forward\<close>, the \<^verbatim>\<open>IndexError\<close> of a list
  index out of range, the \<^verbatim>\<open>RuntimeError\<close> of \<^verbatim>\<open>torch.cat\<close> on an empty list and of
  \<^verbatim>\<open>torch.chunk\<close> with a chunk count below one, and the \<^verbatim>\<open>AttributeError\<close> of reading
  an attribute that is not there.
\<close>

datatype py_error =
    Exception_all_None
  | Exception_domain_A
  | Exception_domain_B
  | IndexError
  | RuntimeError
  | AttributeError

definition bind_result :: "py_error + 'a \<Rightarrow> ('a \<Rightarrow> py_error + 'b) \<Rightarrow> py_error + 'b" where
  "bind_result r f = (case r of Inl e \<Rightarrow> Inl e | Inr v \<Rightarrow> f v)"

text \<open>\<^verbatim>\<open>[f(x) for x in xs]\<close> where \<open>f\<close> may raise: the first exception ends the loop.\<close>

fun map_result :: "('a \<Rightarrow> py_error + 'b) \<Rightarrow> 'a list \<Rightarrow> py_error + 'b list" where
  "map_result f [] = Inr []"
| "map_result f (x # xs) =
     (case f x of
        Inl e \<Rightarrow> Inl e
      | Inr y \<Rightarrow> (case map_result f xs of Inl e \<Rightarrow> Inl e | Inr ys \<Rightarrow> Inr (y # ys)))"

text \<open>\<^verbatim>\<open>range(a, b)\<close> over Python's unbounded integers; \<^verbatim>\<open>range(n)\<close> is \<open>py_range 0 n\<close>.\<close>

definition py_range :: "int \<Rightarrow> int \<Rightarrow> int list" where
  "py_range a b = [a..b - 1]"

text \<open>\<^verbatim>\<open>xs[i]\<close>: a negative index counts from the end, out of range raises.\<close>

definition py_index :: "'a list \<Rightarrow> int \<Rightarrow> py_error + 'a" where
  "py_index xs i =
     (if 0 \<le> i \<and> i < int (length xs) then Inr (xs ! nat i)
      else if i < 0 \<and> - int (length xs) \<le> i then Inr (xs ! nat (int (length xs) + i))
      else Inl IndexError)"

text \<open>\<^verbatim>\<open>xs[a:b]\<close>: both bounds are clamped to the list, a negative bound counts from the end.\<close>

definition py_slice :: "'a list \<Rightarrow> int \<Rightarrow> int \<Rightarrow> 'a list" where
  "py_slice xs a b =
     (let n = int (length xs);
          lo = (if a < 0 then max (a + n) 0 else min a n);
          hi = (if b < 0 then max (b + n) 0 else min b n)
      in take (nat (hi - lo)) (drop (nat lo) xs))"

text \<open>
  A Python number that is either the float literal it was initialised with or a tensor:
  \<^verbatim>\<open>self.loss_G = 0.0\<close> followed by \<^verbatim>\<open>self.loss_G += tensor\<close>.
\<close>

datatype 't pynum = PyFloat real | Tensor 't

section \<open>The imported components\<close>

text \<open>
  The networks, the loss functions, the replay buffer and the tensor library are imported
  by the module and are not part of it. They are parameters of the model, collected in
  one record: \<open>'t\<close> is the type of tensors, \<open>'n\<close> of network objects, \<open>'p\<close> of trainable
  parameters and \<open>'b\<close> of replay buffers (with whatever random state they carry).
  Tensors are abstract values: the device a tensor lives on is not part of its value, so
  \<^verbatim>\<open>x.to(device)\<close> is \<open>x\<close>, and a call of a network or of a tensor operation is a
  total function (shape errors of the tensor library are outside the model), with the
  exception of the two argument checks named above.
\<close>

record ('t, 'n, 'p, 'b) lib =
  SpatialTranslationModel :: "int \<Rightarrow> int \<Rightarrow> int \<Rightarrow> 'n"
    \<comment> \<open>\<^verbatim>\<open>SpatialTranslationModel(n_in, n_out, r)\<close>\<close>
  TemporalPredictorModel :: "int \<Rightarrow> int \<Rightarrow> int \<Rightarrow> 'n"
    \<comment> \<open>\<^verbatim>\<open>TemporalPredictorModel(n_in, n_out, r)\<close>\<close>
  Discriminator :: "int \<Rightarrow> int \<Rightarrow> 'n"
    \<comment> \<open>\<^verbatim>\<open>Discriminator(n_in, r)\<close>\<close>
  parameters :: "'n \<Rightarrow> 'p list"
    \<comment> \<open>\<^verbatim>\<open>net.parameters()\<close>\<close>
  call :: "'n \<Rightarrow> 't \<Rightarrow> 't"
    \<comment> \<open>\<^verbatim>\<open>net(x)\<close>\<close>
  GANLoss :: "'t \<Rightarrow> bool \<Rightarrow> 't"
    \<comment> \<open>the object \<^verbatim>\<open>GANLoss()\<close>, called as \<^verbatim>\<open>criterion(pred, target_is_real)\<close>\<close>
  MSELoss :: "'t \<Rightarrow> 't \<Rightarrow> 't"
    \<comment> \<open>the object \<^verbatim>\<open>nn.MSELoss()\<close>, called as \<^verbatim>\<open>criterion(input, target)\<close>\<close>
  ReplayBuffer :: "'b"
    \<comment> \<open>\<^verbatim>\<open>ReplayBuffer()\<close>\<close>
  push_and_pop :: "'b \<Rightarrow> 't \<Rightarrow> 't \<times> 'b"
    \<comment> \<open>\<^verbatim>\<open>buffer.push_and_pop(x)\<close>: the frame handed back and the buffer afterwards\<close>
  cat :: "'t list \<Rightarrow> 't"
    \<comment> \<open>\<^verbatim>\<open>torch.cat(xs, dim = 1)\<close> on a non-empty list\<close>
  chunk :: "'t \<Rightarrow> int \<Rightarrow> 't list"
    \<comment> \<open>\<^verbatim>\<open>torch.chunk(x, k, dim = 1)\<close> for a positive \<open>k\<close>\<close>
  squeeze :: "'t \<Rightarrow> 't"
    \<comment> \<open>\<^verbatim>\<open>x.squeeze(1)\<close>\<close>
  detach :: "'t \<Rightarrow> 't"
    \<comment> \<open>\<^verbatim>\<open>x.detach()\<close>\<close>
  to_float :: "'t \<Rightarrow> 't"
    \<comment> \<open>\<^verbatim>\<open>x.float()\<close>\<close>
  t_add :: "'t \<Rightarrow> 't \<Rightarrow> 't"
    \<comment> \<open>tensor \<^verbatim>\<open>+\<close> tensor\<close>
  f_add :: "real \<Rightarrow> 't \<Rightarrow> 't"
    \<comment> \<open>float \<^verbatim>\<open>+\<close> tensor\<close>
  t_mul_f :: "'t \<Rightarrow> real \<Rightarrow> 't"
    \<comment> \<open>tensor \<^verbatim>\<open>*\<close> float\<close>
  f_mul_t :: "real \<Rightarrow> 't \<Rightarrow> 't"
    \<comment> \<open>float \<^verbatim>\<open>*\<close> tensor\<close>

definition torch_cat :: "('t, 'n, 'p, 'b) lib \<Rightarrow> 't list \<Rightarrow> py_error + 't" where
  "torch_cat L xs = (if xs = [] then Inl RuntimeError else Inr (cat L xs))"

definition torch_chunk :: "('t, 'n, 'p, 'b) lib \<Rightarrow> 't \<Rightarrow> int \<Rightarrow> py_error + 't list" where
  "torch_chunk L x k = (if k \<le> 0 then Inl RuntimeError else Inr (chunk L x k))"

text \<open>\<^verbatim>\<open>Adam(params, lr = ...)\<close>: the optimizer object, by what it was built from.\<close>

datatype 'p optimizer = Adam (param_list: "'p list") (lr: real)

text \<open>
  What an optimizer does to the weights is automatic differentiation and is not modelled;
  the calls \<^verbatim>\<open>optim.zero_grad()\<close>, \<^verbatim>\<open>loss.backward()\<close> and \<^verbatim>\<open>optim.step()\<close> are recorded,
  in order, in the field \<open>events\<close> of the module state.
\<close>

datatype ('t, 'p) event =
    is_Zero_grad: Zero_grad "'p optimizer"
  | is_Loss_backward: Loss_backward 't
  | is_Step: Step "'p optimizer"

section \<open>The module state and its constructor\<close>

text \<open>
  The attributes of \<^verbatim>\<open>self\<close>. \<open>self_t\<close> and \<open>self_T\<close> are \<^verbatim>\<open>self.t\<close> and \<^verbatim>\<open>self.T\<close>.
  An attribute that the constructor does not set is \<open>None\<close> until it is assigned.
  \<open>events\<close> is the one field that is not an attribute: it is the record of the
  optimizer calls made so far.
\<close>

record ('t, 'n, 'p, 'b) ReCycleGAN =
  self_t :: int
  self_T :: int
  device :: string
  G_A_to_B :: 'n
  G_B_to_A :: 'n
  P_A :: 'n
  P_B :: 'n
  D_A :: 'n
  D_B :: 'n
  criterion_adv :: "'t \<Rightarrow> bool \<Rightarrow> 't"
  criterion_l2 :: "'t \<Rightarrow> 't \<Rightarrow> 't"
  optim_G :: "'p optimizer"
  optim_D :: "'p optimizer"
  fake_a_buffer :: 'b
  fake_b_buffer :: 'b
  true_a_seq :: "'t option"
  true_b_seq :: "'t option"
  loss_D :: "'t pynum option"
  loss_G :: "'t pynum option"
  events :: "('t, 'p) event list"

text \<open>
  \<^verbatim>\<open>__init__(self, A_channel = 3, B_channel = 3, T = 30, t = 2, r = 1, device = 'cpu')\<close>.
  A network object is given by the class and the arguments it is built with; how its
  weights are initialised is not modelled. \<^verbatim>\<open>self.to(self.device)\<close> moves the module and
  changes no value.
\<close>

definition init ::
  "('t, 'n, 'p, 'b) lib \<Rightarrow> int \<Rightarrow> int \<Rightarrow> int \<Rightarrow> int \<Rightarrow> int \<Rightarrow> string \<Rightarrow> ('t, 'n, 'p, 'b) ReCycleGAN" where
  "init L A_channel B_channel T t r dev =
     (let G_A_to_B' = SpatialTranslationModel L A_channel B_channel r;
          G_B_to_A' = SpatialTranslationModel L B_channel A_channel r;
          P_A' = TemporalPredictorModel L (t * A_channel) A_channel r;
          P_B' = TemporalPredictorModel L (t * B_channel) B_channel r;
          D_A' = Discriminator L A_channel r;
          D_B' = Discriminator L B_channel r
      in \<lparr> self_t = t,
           self_T = T + t,
           device = dev,
           G_A_to_B = G_A_to_B',
           G_B_to_A = G_B_to_A',
           P_A = P_A',
           P_B = P_B',
           D_A = D_A',
           D_B = D_B',
           criterion_adv = GANLoss L,
           criterion_l2 = MSELoss L,
           optim_G = Adam (parameters L G_A_to_B' @ parameters L G_B_to_A'
                           @ parameters L P_A' @ parameters L P_B') 0.001,
           optim_D = Adam (parameters L D_A' @ parameters L D_B') 0.0001,
           fake_a_buffer = ReplayBuffer L,
           fake_b_buffer = ReplayBuffer L,
           true_a_seq = None,
           true_b_seq = None,
           loss_D = None,
           loss_G = None,
           events = [] \<rparr>)"

text \<open>\<^verbatim>\<open>setInput(self, true_a_seq, true_b_seq)\<close>\<close>

definition setInput ::
  "('t, 'n, 'p, 'b) lib \<Rightarrow> ('t, 'n, 'p, 'b) ReCycleGAN \<Rightarrow> 't \<Rightarrow> 't \<Rightarrow> ('t, 'n, 'p, 'b) ReCycleGAN" where
  "setInput L self a_seq b_seq =
     self\<lparr> true_a_seq := Some (to_float L a_seq), true_b_seq := Some (to_float L b_seq) \<rparr>"

section \<open>The two loss functions\<close>

text \<open>
  \<^verbatim>\<open>updateGenerator(self, true_x_tuple, fake_y_tuple, true_x_next, fake_y_next, P_X, P_Y,
  net_Y_to_X, net_D)\<close>
\<close>

definition updateGenerator ::
  "('t, 'n, 'p, 'b) lib \<Rightarrow> ('t, 'n, 'p, 'b) ReCycleGAN \<Rightarrow> 't \<Rightarrow> 't \<Rightarrow> 't \<Rightarrow> 't
     \<Rightarrow> 'n \<Rightarrow> 'n \<Rightarrow> 'n \<Rightarrow> 'n \<Rightarrow> 't" where
  "updateGenerator L self true_x_tuple fake_y_tuple true_x_next fake_y_next P_X P_Y net_Y_to_X net_D =
     (let fake_x_next = call L P_X true_x_tuple;
          reco_x_next = call L net_Y_to_X (call L P_Y fake_y_tuple);
          fake_pred = call L net_D fake_y_next;
          loss_G' = t_add L
                      (t_add L (criterion_adv self fake_pred True)
                               (t_mul_f L (criterion_l2 self reco_x_next true_x_next) 10))
                      (t_mul_f L (criterion_l2 self fake_x_next true_x_next) 10)
      in loss_G')"

text \<open>\<^verbatim>\<open>updateDiscriminator(self, fake_frame, true_frame, net_D)\<close>\<close>

definition updateDiscriminator ::
  "('t, 'n, 'p, 'b) lib \<Rightarrow> ('t, 'n, 'p, 'b) ReCycleGAN \<Rightarrow> 't \<Rightarrow> 't \<Rightarrow> 'n \<Rightarrow> 't" where
  "updateDiscriminator L self fake_frame true_frame net_D =
     (let fake_pred = call L net_D (detach L fake_frame);
          true_pred = call L net_D true_frame;
          loss_D' = t_add L (criterion_adv self true_pred True) (criterion_adv self fake_pred False)
      in loss_D')"

section \<open>Inference: \<^verbatim>\<open>forward\<close>\<close>

text \<open>
  The body of the branch of \<^verbatim>\<open>forward\<close> that renders one domain (lines 119 to 135 for
  domain A, lines 141 to 157 for domain B, which differ only in the names): \<open>X\<close> is the
  domain of the input and \<open>Y\<close> the other one. It returns
  \<open>(fake_y_spat, fake_y_temp, fake_y, reco_x)\<close>.
\<close>

definition render ::
  "('t, 'n, 'p, 'b) lib \<Rightarrow> int \<Rightarrow> 'n \<Rightarrow> 'n \<Rightarrow> 'n \<Rightarrow> 'n \<Rightarrow> 't \<Rightarrow> 't list
     \<Rightarrow> py_error + ('t \<times> 't \<times> 't \<times> 't)" where
  "render L t G_X_to_Y G_Y_to_X P_X P_Y true_x true_x_seq =
     bind_result
       (map_result (\<lambda>i. bind_result (py_index true_x_seq i) (\<lambda>frame. Inr (call L G_X_to_Y frame)))
          (py_range 0 t))
       (\<lambda>fake_y_list.
     bind_result (torch_cat L fake_y_list) (\<lambda>fake_y_tuple.
     bind_result (torch_cat L true_x_seq) (\<lambda>true_x_tuple.
       let fake_y_spat = call L G_X_to_Y true_x;
           fake_y_temp = call L P_Y fake_y_tuple;
           fake_y = f_mul_t L 0.5 (t_add L fake_y_spat fake_y_temp);
           reco_x = f_mul_t L 0.5
                      (t_add L (call L G_Y_to_X (call L P_Y fake_y_tuple)) (call L P_X true_x_tuple))
       in Inr (fake_y_spat, fake_y_temp, fake_y, reco_x))))"

text \<open>
  \<^verbatim>\<open>forward(self, true_a = None, true_b = None, true_a_seq = None, true_b_seq = None,
  warning = True)\<close>; the arguments \<^verbatim>\<open>true_a_seq\<close> and \<^verbatim>\<open>true_b_seq\<close> are \<open>a_seq\<close> and
  \<open>b_seq\<close> here, the attributes of \<^verbatim>\<open>self\<close> have these names. The returned dict is an
  association list in the order of the dict literal; a value is \<open>None\<close> or a tensor.
  \<^verbatim>\<open>INFO\<close> only prints, so \<open>warning\<close> has no effect on the result.
\<close>

definition forward ::
  "('t, 'n, 'p, 'b) lib \<Rightarrow> ('t, 'n, 'p, 'b) ReCycleGAN \<Rightarrow> 't option \<Rightarrow> 't option
     \<Rightarrow> 't list option \<Rightarrow> 't list option \<Rightarrow> bool \<Rightarrow> py_error + (string \<times> 't option) list" where
  "forward L self true_a true_b a_seq b_seq warning =
     (if true_a = None \<and> true_b = None \<and> a_seq = None \<and> b_seq = None
      then Inl Exception_all_None
      else
        bind_result
          (case (true_a, a_seq) of
             (Some a, Some frames_a) \<Rightarrow>
               bind_result
                 (render L (self_t self) (G_A_to_B self) (G_B_to_A self) (P_A self) (P_B self) a frames_a)
                 (\<lambda>(spat, temp, fake, reco). Inr (Some spat, Some temp, Some fake, Some reco))
           | (None, None) \<Rightarrow> Inr (None, None, None, None)
           | _ \<Rightarrow> Inl Exception_domain_A)
          (\<lambda>(fake_b_spat, fake_b_temp, fake_b, reco_a).
        bind_result
          (case (true_b, b_seq) of
             (Some b, Some frames_b) \<Rightarrow>
               bind_result
                 (render L (self_t self) (G_B_to_A self) (G_A_to_B self) (P_B self) (P_A self) b frames_b)
                 (\<lambda>(spat, temp, fake, reco). Inr (Some spat, Some temp, Some fake, Some reco))
           | (None, None) \<Rightarrow> Inr (None, None, None, None)
           | _ \<Rightarrow> Inl Exception_domain_B)
          (\<lambda>(fake_a_spat, fake_a_temp, fake_a, reco_b).
            Inr [(''true_a'', true_a),
                 (''fake_b_spat'', fake_b_spat),
                 (''fake_b_temp'', fake_b_temp),
                 (''fake_b'', fake_b),
                 (''reco_a'', reco_a),
                 (''true_b'', true_b),
                 (''fake_a_spat'', fake_a_spat),
                 (''fake_a_temp'', fake_a_temp),
                 (''fake_a'', fake_a),
                 (''reco_b'', reco_b)])))"

section \<open>Training: \<^verbatim>\<open>backward\<close>\<close>

text \<open>
  \<^verbatim>\<open>self.loss += x\<close>: reading an attribute that is not set raises; a float plus a tensor
  is a tensor.
\<close>

definition iadd :: "('t, 'n, 'p, 'b) lib \<Rightarrow> 't pynum option \<Rightarrow> 't \<Rightarrow> py_error + 't pynum" where
  "iadd L v x =
     (case v of
        None \<Rightarrow> Inl AttributeError
      | Some (PyFloat f) \<Rightarrow> Inr (Tensor (f_add L f x))
      | Some (Tensor y) \<Rightarrow> Inr (Tensor (t_add L y x)))"

text \<open>
  One pass of the loop \<^verbatim>\<open>for i in range(self.t, self.T)\<close> (lines 233 to 244). The four
  lists are \<^verbatim>\<open>true_a_frame_list\<close>, \<^verbatim>\<open>true_b_frame_list\<close>, \<^verbatim>\<open>fake_b_frame_list\<close> and
  \<^verbatim>\<open>fake_a_frame_list\<close>; the loop changes \<^verbatim>\<open>self.loss_G\<close>, \<^verbatim>\<open>self.loss_D\<close> and the two
  buffers. The source reads \<^verbatim>\<open>true_a_frame_list[i]\<close> and \<^verbatim>\<open>true_b_frame_list[i]\<close> once per
  use; the lists do not change in between, so they are read once here.
\<close>

definition accumulate_step ::
  "('t, 'n, 'p, 'b) lib \<Rightarrow> 't list \<Rightarrow> 't list \<Rightarrow> 't list \<Rightarrow> 't list \<Rightarrow> int
     \<Rightarrow> ('t, 'n, 'p, 'b) ReCycleGAN \<Rightarrow> py_error + ('t, 'n, 'p, 'b) ReCycleGAN" where
  "accumulate_step L true_a_frame_list true_b_frame_list fake_b_frame_list fake_a_frame_list i self =
     bind_result (torch_cat L (py_slice true_a_frame_list (i - self_t self) i)) (\<lambda>cat_true_a.
     bind_result (torch_cat L (py_slice fake_b_frame_list (i - self_t self) i)) (\<lambda>cat_fake_b.
     bind_result (torch_cat L (py_slice true_b_frame_list (i - self_t self) i)) (\<lambda>cat_true_b.
     bind_result (torch_cat L (py_slice fake_a_frame_list (i - self_t self) i)) (\<lambda>cat_fake_a.
     let true_a_tuple = detach L cat_true_a;
         fake_b_tuple = detach L cat_fake_b;
         true_b_tuple = detach L cat_true_b;
         fake_a_tuple = detach L cat_fake_a
     in
     bind_result (py_index true_a_frame_list i) (\<lambda>true_a_i.
     bind_result (py_index true_b_frame_list i) (\<lambda>true_b_i.
     bind_result
       (iadd L (loss_G self)
          (updateGenerator L self true_a_tuple fake_b_tuple true_a_i true_b_i
             (P_A self) (P_B self) (G_B_to_A self) (D_B self)))
       (\<lambda>loss_G1.
     bind_result
       (iadd L (Some loss_G1)
          (updateGenerator L self true_b_tuple fake_a_tuple true_b_i true_a_i
             (P_B self) (P_A self) (G_A_to_B self) (D_A self)))
       (\<lambda>loss_G2.
     bind_result (py_index fake_b_frame_list i) (\<lambda>fake_b_i.
     let (alter_fake_b, fake_b_buffer') = push_and_pop L (fake_b_buffer self) fake_b_i in
     bind_result (py_index fake_a_frame_list i) (\<lambda>fake_a_i.
     let (alter_fake_a, fake_a_buffer') = push_and_pop L (fake_a_buffer self) fake_a_i in
     bind_result
       (iadd L (loss_D self) (updateDiscriminator L self alter_fake_b true_b_i (D_B self)))
       (\<lambda>loss_D1.
     bind_result
       (iadd L (Some loss_D1) (updateDiscriminator L self alter_fake_a true_a_i (D_A self)))
       (\<lambda>loss_D2.
       Inr (self\<lparr> loss_G := Some loss_G2,
                  loss_D := Some loss_D2,
                  fake_b_buffer := fake_b_buffer',
                  fake_a_buffer := fake_a_buffer' \<rparr>)))))))))))))"

fun accumulate ::
  "('t, 'n, 'p, 'b) lib \<Rightarrow> 't list \<Rightarrow> 't list \<Rightarrow> 't list \<Rightarrow> 't list \<Rightarrow> int list
     \<Rightarrow> ('t, 'n, 'p, 'b) ReCycleGAN \<Rightarrow> py_error + ('t, 'n, 'p, 'b) ReCycleGAN" where
  "accumulate L ta tb fb fa [] self = Inr self"
| "accumulate L ta tb fb fa (i # steps) self =
     (case accumulate_step L ta tb fb fa i self of
        Inl e \<Rightarrow> Inl e
      | Inr self' \<Rightarrow> accumulate L ta tb fb fa steps self')"

text \<open>
  The loop \<^verbatim>\<open>for i in range(self.T)\<close> (lines 225 to 227): each pass appends one frame to
  \<^verbatim>\<open>fake_b_frame_list\<close> and one to \<^verbatim>\<open>fake_a_frame_list\<close>.
\<close>

definition translate_frames ::
  "('t, 'n, 'p, 'b) lib \<Rightarrow> ('t, 'n, 'p, 'b) ReCycleGAN \<Rightarrow> 't list \<Rightarrow> 't list
     \<Rightarrow> py_error + ('t \<times> 't) list" where
  "translate_frames L self true_a_frame_list true_b_frame_list =
     map_result
       (\<lambda>i. bind_result (py_index true_a_frame_list i) (\<lambda>frame_a.
            bind_result (py_index true_b_frame_list i) (\<lambda>frame_b.
              Inr (call L (G_A_to_B self) frame_a, call L (G_B_to_A self) frame_b))))
       (py_range 0 (self_T self))"

text \<open>
  The update at the end of \<^verbatim>\<open>backward\<close> (lines 249 to 256). \<^verbatim>\<open>loss.backward()\<close> on a
  loss that is still the float \<^verbatim>\<open>0.0\<close> raises, a float has no such method.
\<close>

definition update ::
  "('t, 'n, 'p, 'b) ReCycleGAN \<Rightarrow> py_error + ('t, 'n, 'p, 'b) ReCycleGAN" where
  "update self =
     (case loss_G self of
        Some (Tensor loss_G') \<Rightarrow>
          (case loss_D self of
             Some (Tensor loss_D') \<Rightarrow>
               Inr (self\<lparr> events := events self @
                      [Zero_grad (optim_G self), Loss_backward loss_G', Step (optim_G self),
                       Zero_grad (optim_D self), Loss_backward loss_D', Step (optim_D self)] \<rparr>)
           | _ \<Rightarrow> Inl AttributeError)
      | _ \<Rightarrow> Inl AttributeError)"

text \<open>\<^verbatim>\<open>backward(self)\<close>\<close>

definition backward ::
  "('t, 'n, 'p, 'b) lib \<Rightarrow> ('t, 'n, 'p, 'b) ReCycleGAN \<Rightarrow> py_error + ('t, 'n, 'p, 'b) ReCycleGAN" where
  "backward L self =
     (case true_a_seq self of
        None \<Rightarrow> Inl AttributeError
      | Some a_seq \<Rightarrow>
     bind_result (torch_chunk L a_seq (self_T self)) (\<lambda>chunks_a.
     let true_a_frame_list = map (squeeze L) chunks_a in
     (case true_b_seq self of
        None \<Rightarrow> Inl AttributeError
      | Some b_seq \<Rightarrow>
     bind_result (torch_chunk L b_seq (self_T self)) (\<lambda>chunks_b.
     let true_b_frame_list = map (squeeze L) chunks_b;
         self1 = self\<lparr> loss_D := Some (PyFloat 0), loss_G := Some (PyFloat 0) \<rparr>
     in
     bind_result (translate_frames L self1 true_a_frame_list true_b_frame_list) (\<lambda>fakes.
     let fake_b_frame_list = map fst fakes;
         fake_a_frame_list = map snd fakes
     in
     bind_result
       (accumulate L true_a_frame_list true_b_frame_list fake_b_frame_list fake_a_frame_list
          (py_range (self_t self1) (self_T self1)) self1)
       update)))))"

section \<open>Notions used to state the properties\<close>

text \<open>
  The states a module object can be in: the constructor builds it, and \<^verbatim>\<open>setInput\<close> and
  \<^verbatim>\<open>backward\<close> are the only methods that assign to an attribute (\<^verbatim>\<open>forward\<close>,
  \<^verbatim>\<open>updateGenerator\<close> and \<^verbatim>\<open>updateDiscriminator\<close> contain no assignment to \<^verbatim>\<open>self\<close>
  and are functions of the state).
\<close>

inductive reachable ::
  "('t, 'n, 'p, 'b) lib \<Rightarrow> int \<Rightarrow> int \<Rightarrow> int \<Rightarrow> int \<Rightarrow> int \<Rightarrow> string
     \<Rightarrow> ('t, 'n, 'p, 'b) ReCycleGAN \<Rightarrow> bool"
  for L :: "('t, 'n, 'p, 'b) lib" and A_channel B_channel T t r :: int and dev :: string where
  constructed: "reachable L A_channel B_channel T t r dev (init L A_channel B_channel T t r dev)"
| after_setInput:
    "reachable L A_channel B_channel T t r dev self
     \<Longrightarrow> reachable L A_channel B_channel T t r dev (setInput L self a_seq b_seq)"
| after_backward:
    "reachable L A_channel B_channel T t r dev self \<Longrightarrow> backward L self = Inr self'
     \<Longrightarrow> reachable L A_channel B_channel T t r dev self'"

text \<open>The value of a loss attribute after \<^verbatim>\<open>loss += x\<close> for each \<open>x\<close> of a list, in order.\<close>

fun accumulated :: "('t, 'n, 'p, 'b) lib \<Rightarrow> 't pynum \<Rightarrow> 't list \<Rightarrow> 't pynum" where
  "accumulated L v [] = v"
| "accumulated L v (x # xs) =
     accumulated L (Tensor (case v of PyFloat f \<Rightarrow> f_add L f x | Tensor y \<Rightarrow> t_add L y x)) xs"

text \<open>
  A replay buffer on its own: the frames it hands back, and the buffer afterwards, when
  the frames of a list are pushed one after the other.
\<close>

fun push_all :: "('t, 'n, 'p, 'b) lib \<Rightarrow> 'b \<Rightarrow> 't list \<Rightarrow> 't list \<times> 'b" where
  "push_all L buf [] = ([], buf)"
| "push_all L buf (x # xs) =
     (let (y, buf') = push_and_pop L buf x;
          (ys, buf'') = push_all L buf' xs
      in (y # ys, buf''))"

text \<open>The frame lists of \<^verbatim>\<open>backward\<close>: a stored sequence cut into frames, and its translation.\<close>

definition true_frames :: "('t, 'n, 'p, 'b) lib \<Rightarrow> ('t, 'n, 'p, 'b) ReCycleGAN \<Rightarrow> 't \<Rightarrow> 't list" where
  "true_frames L self seq = map (squeeze L) (chunk L seq (self_T self))"

definition fake_frames ::
  "('t, 'n, 'p, 'b) lib \<Rightarrow> ('t, 'n, 'p, 'b) ReCycleGAN \<Rightarrow> 'n \<Rightarrow> 't list \<Rightarrow> 't list" where
  "fake_frames L self net frames = map (call L net) (take (nat (self_T self)) frames)"

text \<open>The time steps of the accumulation, \<open>self.t, \<dots>, self.T - 1\<close>.\<close>

definition time_steps :: "('t, 'n, 'p, 'b) ReCycleGAN \<Rightarrow> nat list" where
  "time_steps self = [nat (self_t self)..<nat (self_T self)]"

text \<open>The detached tuple of the \<open>self.t\<close> frames before frame \<open>i\<close>.\<close>

definition tuple_before ::
  "('t, 'n, 'p, 'b) lib \<Rightarrow> ('t, 'n, 'p, 'b) ReCycleGAN \<Rightarrow> 't list \<Rightarrow> nat \<Rightarrow> 't" where
  "tuple_before L self frames i =
     detach L (cat L (take (nat (self_t self)) (drop (i - nat (self_t self)) frames)))"

text \<open>
  The two generator losses of time step \<open>i\<close>, direction A to B and then B to A, with the
  arguments \<^verbatim>\<open>backward\<close> passes to \<^verbatim>\<open>updateGenerator\<close>.
\<close>

definition generator_terms ::
  "('t, 'n, 'p, 'b) lib \<Rightarrow> ('t, 'n, 'p, 'b) ReCycleGAN \<Rightarrow> 't list \<Rightarrow> 't list \<Rightarrow> 't list \<Rightarrow> 't list
     \<Rightarrow> nat \<Rightarrow> 't list" where
  "generator_terms L self ta tb fb fa i =
     [updateGenerator L self (tuple_before L self ta i) (tuple_before L self fb i) (ta ! i) (tb ! i)
        (P_A self) (P_B self) (G_B_to_A self) (D_B self),
      updateGenerator L self (tuple_before L self tb i) (tuple_before L self fa i) (tb ! i) (ta ! i)
        (P_B self) (P_A self) (G_A_to_B self) (D_A self)]"

text \<open>
  The two discriminator losses of time step \<open>i\<close>, for \<open>D_B\<close> and then \<open>D_A\<close>, on the
  frames \<open>alter_fake_b\<close> and \<open>alter_fake_a\<close>.
\<close>

definition discriminator_terms ::
  "('t, 'n, 'p, 'b) lib \<Rightarrow> ('t, 'n, 'p, 'b) ReCycleGAN \<Rightarrow> 't list \<Rightarrow> 't list
     \<Rightarrow> nat \<times> 't \<times> 't \<Rightarrow> 't list" where
  "discriminator_terms L self ta tb step =
     (case step of (i, alter_fake_b, alter_fake_a) \<Rightarrow>
        [updateDiscriminator L self alter_fake_b (tb ! i) (D_B self),
         updateDiscriminator L self alter_fake_a (ta ! i) (D_A self)])"

text \<open>
  The inputs on which \<^verbatim>\<open>backward\<close> runs to its end: the tuple size is positive, there
  is at least one time step, and each stored sequence is cut into at least \<open>self.T\<close>
  pieces.
\<close>

definition trainable :: "('t, 'n, 'p, 'b) lib \<Rightarrow> ('t, 'n, 'p, 'b) ReCycleGAN \<Rightarrow> 't \<Rightarrow> 't \<Rightarrow> bool" where
  "trainable L self a_seq b_seq \<longleftrightarrow>
     0 < self_t self \<and> self_t self < self_T self
     \<and> nat (self_T self) \<le> length (chunk L a_seq (self_T self))
     \<and> nat (self_T self) \<le> length (chunk L b_seq (self_T self))"

text \<open>
  The module state when the accumulation loop of \<^verbatim>\<open>backward\<close> has ended, written
  without the loop: the generator losses of all time steps added up, the discriminator
  losses of all time steps added up, on the frames that each buffer handed back.
\<close>

definition after_accumulation ::
  "('t, 'n, 'p, 'b) lib \<Rightarrow> ('t, 'n, 'p, 'b) ReCycleGAN \<Rightarrow> 't \<Rightarrow> 't \<Rightarrow> ('t, 'n, 'p, 'b) ReCycleGAN" where
  "after_accumulation L self a_seq b_seq =
     (let ta = true_frames L self a_seq;
          tb = true_frames L self b_seq;
          fb = fake_frames L self (G_A_to_B self) ta;
          fa = fake_frames L self (G_B_to_A self) tb;
          steps = time_steps self;
          popped_b = push_all L (fake_b_buffer self) (map ((!) fb) steps);
          popped_a = push_all L (fake_a_buffer self) (map ((!) fa) steps)
      in self\<lparr> loss_D := Some (accumulated L (PyFloat 0)
                     (concat (map (discriminator_terms L self ta tb)
                                  (zip steps (zip (fst popped_b) (fst popped_a)))))),
               loss_G := Some (accumulated L (PyFloat 0)
                     (concat (map (generator_terms L self ta tb fb fa) steps))),
               fake_b_buffer := snd popped_b,
               fake_a_buffer := snd popped_a \<rparr>)"

text \<open>
  The two results of \<^verbatim>\<open>forward\<close> for one domain as the specification words them: the
  temporal predictor of the input domain is applied to the concatenation of the first \<open>t\<close>
  frames of the sequence.
\<close>

definition spec_fake :: "('t, 'n, 'p, 'b) lib \<Rightarrow> int \<Rightarrow> 'n \<Rightarrow> 'n \<Rightarrow> 't \<Rightarrow> 't list \<Rightarrow> 't" where
  "spec_fake L t G_X_to_Y P_Y true_x frames =
     f_mul_t L 0.5
       (t_add L (call L G_X_to_Y true_x)
                (call L P_Y (cat L (map (call L G_X_to_Y) (take (nat t) frames)))))"


text \<open>
  The reconstruction with the temporal predictor of the input domain applied to the
  concatenation of all frames of the sequence.
\<close>

definition reco_all_frames ::
  "('t, 'n, 'p, 'b) lib \<Rightarrow> int \<Rightarrow> 'n \<Rightarrow> 'n \<Rightarrow> 'n \<Rightarrow> 'n \<Rightarrow> 't list \<Rightarrow> 't" where
  "reco_all_frames L t G_X_to_Y G_Y_to_X P_X P_Y frames =
     f_mul_t L 0.5
       (t_add L (call L G_Y_to_X (call L P_Y (cat L (map (call L G_X_to_Y) (take (nat t) frames)))))
                (call L P_X (cat L frames)))"

text \<open>
  A sequence argument of \<^verbatim>\<open>forward\<close> that the loop \<^verbatim>\<open>for i in range(self.t)\<close> can read:
  it is not given, or the tuple size is positive and the list holds that many frames.
\<close>

definition enough_frames :: "('t, 'n, 'p, 'b) ReCycleGAN \<Rightarrow> 't list option \<Rightarrow> bool" where
  "enough_frames self seq =
     (case seq of None \<Rightarrow> True | Some frames \<Rightarrow> 0 < self_t self \<and> self_t self \<le> int (length frames))"


text \<open>The keys of the dict that \<^verbatim>\<open>forward\<close> returns, by the domain whose input they come from.\<close>

definition keys_A :: "string list" where
  "keys_A = [''true_a'', ''fake_b_spat'', ''fake_b_temp'', ''fake_b'', ''reco_a'']"

definition keys_B :: "string list" where
  "keys_B = [''true_b'', ''fake_a_spat'', ''fake_a_temp'', ''fake_a'', ''reco_b'']"

section \<open>A small instance of the imported components\<close>

text \<open>
  An instance on which the model runs: a tensor is the list of its channel values (one
  pixel, batch of one), a sequence tensor holds one single-channel frame per entry and is
  cut into pieces of equal size the way \<^verbatim>\<open>torch.chunk\<close> does it, a network multiplies
  the sum of its input channels by its one weight, and the buffer has room for one frame
  and hands back the frame pushed before.
\<close>

definition example_lib :: "(real list, real, real, real list list) lib" where
  "example_lib =
     \<lparr> SpatialTranslationModel = (\<lambda>n_in n_out r. 2),
       TemporalPredictorModel = (\<lambda>n_in n_out r. 1),
       Discriminator = (\<lambda>n_in r. 1),
       parameters = (\<lambda>w. [w]),
       call = (\<lambda>w x. [w * sum_list x]),
       GANLoss = (\<lambda>pred target_is_real. [(sum_list pred - (if target_is_real then 1 else 0))\<^sup>2]),
       MSELoss = (\<lambda>x y. [(sum_list x - sum_list y)\<^sup>2]),
       ReplayBuffer = [],
       push_and_pop = (\<lambda>buf x. case buf of [] \<Rightarrow> (x, [x]) | y # ys \<Rightarrow> (y, [x])),
       cat = concat,
       chunk = (\<lambda>x k.
                  let n = length x;
                      size = (n + nat k - 1) div nat k;
                      pieces = (if size = 0 then nat k else (n + size - 1) div size)
                  in map (\<lambda>j. take size (drop (j * size) x)) [0..<pieces]),
       squeeze = (\<lambda>x. x),
       detach = (\<lambda>x. x),
       to_float = (\<lambda>x. x),
       t_add = (\<lambda>x y. map2 (+) x y),
       f_add = (\<lambda>f x. map ((+) f) x),
       t_mul_f = (\<lambda>x f. map (\<lambda>v. v * f) x),
       f_mul_t = (\<lambda>f x. map ((*) f) x) \<rparr>"

text \<open>
  A module on the instance, built with three channels per domain, \<open>r = 1\<close> and the given
  \<open>T\<close> and \<open>t\<close>, and the same module with two stored sequences of two frames each.
\<close>

definition example_module :: "int \<Rightarrow> int \<Rightarrow> (real list, real, real, real list list) ReCycleGAN" where
  "example_module T t = init example_lib 3 3 T t 1 ''cpu''"

definition example_with_input :: "(real list, real, real, real list list) ReCycleGAN" where
  "example_with_input = setInput example_lib (example_module 1 1) [1, 2] [3, 4]"

definition example_trained :: "(real list, real, real, real list list) ReCycleGAN" where
  "example_trained =
     example_with_input
       \<lparr> loss_D := Some (Tensor [90]),
         loss_G := Some (Tensor [710]),
         fake_b_buffer := [[4]],
         fake_a_buffer := [[8]],
         events := [Zero_grad (Adam [2, 2, 1, 1] 0.001), Loss_backward [710],
                    Step (Adam [2, 2, 1, 1] 0.001),
                    Zero_grad (Adam [1, 1] 0.0001), Loss_backward [90],
                    Step (Adam [1, 1] 0.0001)] \<rparr>"

text \<open>The dict that \<^verbatim>\<open>forward\<close> returns on the instance for one frame per domain.\<close>

definition example_dict :: "(string \<times> real list option) list" where
  "example_dict =
     [(''true_a'', Some [1]), (''fake_b_spat'', Some [2]), (''fake_b_temp'', Some [2]),
      (''fake_b'', Some [2]), (''reco_a'', Some [5 / 2]), (''true_b'', Some [3]),
      (''fake_a_spat'', Some [6]), (''fake_a_temp'', Some [6]), (''fake_a'', Some [6]),
      (''reco_b'', Some [15 / 2])]"

section \<open>Exceptions, ranges, indices and slices\<close>

lemma bind_result_Inr_iff:
  "bind_result r f = Inr y \<longleftrightarrow> (\<exists>v. r = Inr v \<and> f v = Inr y)"
  by (cases r) (simp_all add: bind_result_def)

lemma bind_result_simps:
  "bind_result (Inl e) f = Inl e" "bind_result (Inr v) f = f v"
  by (simp_all add: bind_result_def)

lemma map_result_ok:
  "(\<And>x. x \<in> set xs \<Longrightarrow> f x = Inr (g x)) \<Longrightarrow> map_result f xs = Inr (map g xs)"
  by (induction xs) simp_all

lemma map_result_Inr_D:
  "map_result f xs = Inr ys \<Longrightarrow> x \<in> set xs \<Longrightarrow> \<exists>y. f x = Inr y"
  by (induction xs arbitrary: ys) (auto split: sum.splits)

lemma map_result_raises:
  assumes "\<And>x. x \<in> set xs \<Longrightarrow> f x = Inl e \<or> (\<exists>y. f x = Inr y)" "\<exists>x\<in>set xs. f x = Inl e"
  shows "map_result f xs = Inl e"
  using assms
proof (induction xs)
  case Nil
  then show ?case by simp
next
  case (Cons x xs)
  show ?case
  proof (cases "f x")
    case (Inl e')
    with Cons.prems(1)[of x] show ?thesis by simp
  next
    case (Inr y)
    with Cons.prems have "\<exists>x\<in>set xs. f x = Inl e" by auto
    with Cons.IH Cons.prems(1) have "map_result f xs = Inl e" by simp
    with Inr show ?thesis by simp
  qed
qed

lemma py_range_nat: "py_range (int a) (int b) = map int [a..<b]"
proof (induction b)
  case 0
  then show ?case by (simp add: py_range_def)
next
  case (Suc b)
  show ?case
  proof (cases "a \<le> b")
    case True
    then have "[int a..int (Suc b) - 1] = [int a..int b - 1] @ [int b]"
      using upto_rec2[of "int a" "int b"] by simp
    with Suc True show ?thesis by (simp add: py_range_def)
  next
    case False
    then show ?thesis by (simp add: py_range_def)
  qed
qed

lemma py_range_empty: "b \<le> a \<Longrightarrow> py_range a b = []"
  by (simp add: py_range_def)

lemma py_range_mem: "i \<in> set (py_range a b) \<longleftrightarrow> a \<le> i \<and> i < b"
  by (auto simp: py_range_def)

lemma py_index_nat:
  "py_index xs (int i) = (if i < length xs then Inr (xs ! i) else Inl IndexError)"
  by (simp add: py_index_def Let_def)

lemma py_slice_nonneg:
  assumes "0 \<le> a" "a \<le> b"
  shows "py_slice xs a b = take (nat (b - a)) (drop (nat a) xs)"
proof -
  let ?n = "int (length xs)"
  have "take (nat (min b ?n - min a ?n)) (drop (nat (min a ?n)) xs) = take (nat (b - a)) (drop (nat a) xs)"
  proof (cases "b \<le> ?n")
    case True
    with assms show ?thesis by (simp add: min_def)
  next
    case False
    show ?thesis
    proof (cases "a \<le> ?n")
      case True
      with False assms have "min b ?n = ?n" "min a ?n = a" by (simp_all add: min_def)
      moreover have "length (drop (nat a) xs) \<le> nat (?n - a)" "length (drop (nat a) xs) \<le> nat (b - a)"
        using False True assms by simp_all
      ultimately show ?thesis by simp
    next
      case False
      with assms show ?thesis by (simp add: min_def)
    qed
  qed
  with assms show ?thesis by (simp add: py_slice_def Let_def)
qed

lemma py_slice_to_zero: "0 \<le> a \<Longrightarrow> py_slice xs a 0 = []"
  by (simp add: py_slice_def Let_def)

lemma py_slice_steps:
  "py_slice xs (int i - int t) (int i) =
     (if t \<le> i then take t (drop (i - t) xs) else py_slice xs (int i - int t) (int i))"
proof (cases "t \<le> i")
  case True
  then have "py_slice xs (int i - int t) (int i) =
      take (nat (int i - (int i - int t))) (drop (nat (int i - int t)) xs)"
    by (intro py_slice_nonneg) simp_all
  also have "nat (int i - (int i - int t)) = t" by simp
  also have "nat (int i - int t) = i - t" by simp
  finally show ?thesis using True by simp
qed simp

section \<open>The closed form of one rendered domain\<close>

lemma render_eq:
  "render L t G_X_to_Y G_Y_to_X P_X P_Y true_x frames =
     (if t \<le> 0 then Inl RuntimeError
      else if int (length frames) < t then Inl IndexError
      else Inr (call L G_X_to_Y true_x,
                call L P_Y (cat L (map (call L G_X_to_Y) (take (nat t) frames))),
                spec_fake L t G_X_to_Y P_Y true_x frames,
                f_mul_t L 0.5
                  (t_add L (call L G_Y_to_X (call L P_Y (cat L (map (call L G_X_to_Y) (take (nat t) frames)))))
                           (call L P_X (cat L frames)))))"
proof -
  let ?f = "\<lambda>i. bind_result (py_index frames i) (\<lambda>frame. Inr (call L G_X_to_Y frame))"
  consider "t \<le> 0" | "0 < t" "int (length frames) < t" | "0 < t" "t \<le> int (length frames)"
    by linarith
  then show ?thesis
  proof cases
    case 1
    then show ?thesis
      by (simp add: render_def py_range_empty bind_result_simps torch_cat_def)
  next
    case 2
    have r: "py_range 0 t = map int [0..<nat t]"
      using py_range_nat[of 0 "nat t"] 2 by simp
    have "map_result ?f (map int [0..<nat t]) = Inl IndexError"
    proof (rule map_result_raises)
      fix x assume "x \<in> set (map int [0..<nat t])"
      then show "?f x = Inl IndexError \<or> (\<exists>y. ?f x = Inr y)"
        by (auto simp: py_index_nat bind_result_simps)
    next
      have "int (length frames) \<in> set (map int [0..<nat t])" using 2 by auto
      moreover have "?f (int (length frames)) = Inl IndexError"
        by (simp add: py_index_nat bind_result_simps)
      ultimately show "\<exists>x\<in>set (map int [0..<nat t]). ?f x = Inl IndexError" by blast
    qed
    with 2 r show ?thesis by (simp add: render_def bind_result_simps)
  next
    case 3
    have r: "py_range 0 t = map int [0..<nat t]"
      using py_range_nat[of 0 "nat t"] 3 by simp
    have "map_result ?f (map int [0..<nat t]) = Inr (map (\<lambda>i. call L G_X_to_Y (frames ! nat i)) (map int [0..<nat t]))"
      using 3 by (intro map_result_ok) (auto simp: py_index_nat bind_result_simps)
    also have "map (\<lambda>i. call L G_X_to_Y (frames ! nat i)) (map int [0..<nat t]) = map (call L G_X_to_Y) (take (nat t) frames)"
      using 3 by (auto simp: list_eq_iff_nth_eq)
    finally have m: "map_result ?f (py_range 0 t) = Inr (map (call L G_X_to_Y) (take (nat t) frames))"
      by (simp add: r)
    have ne: "frames \<noteq> []" "take (nat t) frames \<noteq> []" using 3 by auto
    show ?thesis
      using 3 ne by (simp add: render_def m bind_result_simps torch_cat_def Let_def spec_fake_def)
  qed
qed

section \<open>The accumulation loop without the loop\<close>

lemma generator_terms_upd [simp]:
  "generator_terms L (s\<lparr>loss_G := g, loss_D := d, fake_b_buffer := bb, fake_a_buffer := ba\<rparr>)
   = generator_terms L s"
  by (simp add: generator_terms_def updateGenerator_def tuple_before_def fun_eq_iff)

lemma discriminator_terms_upd [simp]:
  "discriminator_terms L (s\<lparr>loss_G := g, loss_D := d, fake_b_buffer := bb, fake_a_buffer := ba\<rparr>)
   = discriminator_terms L s"
  by (simp add: discriminator_terms_def updateDiscriminator_def fun_eq_iff)

lemma generator_terms_loss [simp]:
  "generator_terms L (s\<lparr>loss_G := g\<rparr>) = generator_terms L s"
  "generator_terms L (s\<lparr>loss_D := d\<rparr>) = generator_terms L s"
  by (simp_all add: generator_terms_def updateGenerator_def tuple_before_def fun_eq_iff)

lemma discriminator_terms_loss [simp]:
  "discriminator_terms L (s\<lparr>loss_G := g\<rparr>) = discriminator_terms L s"
  "discriminator_terms L (s\<lparr>loss_D := d\<rparr>) = discriminator_terms L s"
  by (simp_all add: discriminator_terms_def updateDiscriminator_def fun_eq_iff)

lemma accumulated_append: "accumulated L v (xs @ ys) = accumulated L (accumulated L v xs) ys"
  by (induction xs arbitrary: v) simp_all

lemma accumulate_step_nat:
  assumes t: "self_t s = int t" "0 < t"
    and i: "t \<le> i" "i < length ta" "i < length tb" "i < length fb" "i < length fa"
    and l: "loss_G s = Some g" "loss_D s = Some d"
  shows "accumulate_step L ta tb fb fa (int i) s =
         Inr (s\<lparr> loss_G := Some (accumulated L g (generator_terms L s ta tb fb fa i)),
                  loss_D := Some (accumulated L d (discriminator_terms L s ta tb
                     (i, fst (push_and_pop L (fake_b_buffer s) (fb ! i)),
                         fst (push_and_pop L (fake_a_buffer s) (fa ! i))))),
                  fake_b_buffer := snd (push_and_pop L (fake_b_buffer s) (fb ! i)),
                  fake_a_buffer := snd (push_and_pop L (fake_a_buffer s) (fa ! i)) \<rparr>)"
proof -
  have ne: "take t (drop (i - t) xs) \<noteq> []" if "i < length xs" for xs :: "'a list"
    using that t(2) i(1) by simp
  show ?thesis
    using t i l ne[of ta] ne[of tb] ne[of fb] ne[of fa]
    by (simp add: accumulate_step_def py_slice_steps py_index_nat torch_cat_def bind_result_simps
        Let_def split_beta iadd_def generator_terms_def discriminator_terms_def tuple_before_def
        split: pynum.splits)
qed

lemma accumulate_nat:
  assumes "self_t s = int t" "0 < t"
    and "\<forall>i\<in>set steps. t \<le> i \<and> i < length ta \<and> i < length tb \<and> i < length fb \<and> i < length fa"
    and "loss_G s = Some g" "loss_D s = Some d"
  shows "accumulate L ta tb fb fa (map int steps) s =
         Inr (s\<lparr> loss_G := Some (accumulated L g (concat (map (generator_terms L s ta tb fb fa) steps))),
                  loss_D := Some (accumulated L d (concat (map (discriminator_terms L s ta tb)
                     (zip steps
                        (zip (fst (push_all L (fake_b_buffer s) (map ((!) fb) steps)))
                             (fst (push_all L (fake_a_buffer s) (map ((!) fa) steps)))))))),
                  fake_b_buffer := snd (push_all L (fake_b_buffer s) (map ((!) fb) steps)),
                  fake_a_buffer := snd (push_all L (fake_a_buffer s) (map ((!) fa) steps)) \<rparr>)"
  using assms
proof (induction steps arbitrary: s g d)
  case Nil
  then show ?case by simp
next
  case (Cons i steps)
  let ?s1 = "s\<lparr> loss_G := Some (accumulated L g (generator_terms L s ta tb fb fa i)),
                  loss_D := Some (accumulated L d (discriminator_terms L s ta tb
                     (i, fst (push_and_pop L (fake_b_buffer s) (fb ! i)),
                         fst (push_and_pop L (fake_a_buffer s) (fa ! i))))),
                  fake_b_buffer := snd (push_and_pop L (fake_b_buffer s) (fb ! i)),
                  fake_a_buffer := snd (push_and_pop L (fake_a_buffer s) (fa ! i)) \<rparr>"
  have step: "accumulate_step L ta tb fb fa (int i) s = Inr ?s1"
    using Cons.prems by (intro accumulate_step_nat[where t=t]) simp_all
  have rest: "accumulate L ta tb fb fa (map int steps) ?s1 = Inr (?s1\<lparr> loss_G := Some (accumulated L (accumulated L g (generator_terms L s ta tb fb fa i)) (concat (map (generator_terms L ?s1 ta tb fb fa) steps))),
                  loss_D := Some (accumulated L (accumulated L d (discriminator_terms L s ta tb
                     (i, fst (push_and_pop L (fake_b_buffer s) (fb ! i)),
                         fst (push_and_pop L (fake_a_buffer s) (fa ! i))))) (concat (map (discriminator_terms L ?s1 ta tb)
                     (zip steps
                        (zip (fst (push_all L (fake_b_buffer ?s1) (map ((!) fb) steps)))
                             (fst (push_all L (fake_a_buffer ?s1) (map ((!) fa) steps)))))))),
                  fake_b_buffer := snd (push_all L (fake_b_buffer ?s1) (map ((!) fb) steps)),
                  fake_a_buffer := snd (push_all L (fake_a_buffer ?s1) (map ((!) fa) steps)) \<rparr>)"
    using Cons.prems by (intro Cons.IH) simp_all
  show ?case
    using step rest by (simp add: split_beta accumulated_append)
qed

lemma translate_frames_nat:
  assumes "nat (self_T s) \<le> length ta" "nat (self_T s) \<le> length tb" "0 \<le> self_T s"
  shows "translate_frames L s ta tb =
         Inr (map (\<lambda>i. (call L (G_A_to_B s) (ta ! i), call L (G_B_to_A s) (tb ! i))) [0..<nat (self_T s)])"
proof -
  have "py_range 0 (self_T s) = map int [0..<nat (self_T s)]"
    using py_range_nat[of 0 "nat (self_T s)"] assms(3) by simp
  moreover have "map_result
       (\<lambda>i. bind_result (py_index ta i) (\<lambda>frame_a.
            bind_result (py_index tb i) (\<lambda>frame_b.
              Inr (call L (G_A_to_B s) frame_a, call L (G_B_to_A s) frame_b))))
       (map int [0..<nat (self_T s)])
     = Inr (map (\<lambda>i. (call L (G_A_to_B s) (ta ! nat i), call L (G_B_to_A s) (tb ! nat i))) (map int [0..<nat (self_T s)]))"
    using assms by (intro map_result_ok) (auto simp: py_index_nat bind_result_simps)
  ultimately show ?thesis by (simp add: translate_frames_def comp_def)
qed

lemma translate_frames_Inr_D:
  assumes "translate_frames L s ta tb = Inr fakes" "0 < self_T s"
  shows "nat (self_T s) \<le> length ta \<and> nat (self_T s) \<le> length tb"
proof -
  have "self_T s - 1 \<in> set (py_range 0 (self_T s))"
    using assms(2) by (simp add: py_range_mem)
  from map_result_Inr_D[OF assms(1)[unfolded translate_frames_def] this]
  obtain y where "bind_result (py_index ta (self_T s - 1)) (\<lambda>frame_a.
            bind_result (py_index tb (self_T s - 1)) (\<lambda>frame_b.
              Inr (call L (G_A_to_B s) frame_a, call L (G_B_to_A s) frame_b))) = Inr y" by blast
  then show ?thesis
    using assms(2)
    by (auto simp: bind_result_Inr_iff py_index_def Let_def split: if_splits)
qed

lemma map_fst_fakes:
  "n \<le> length ta \<Longrightarrow> map fst (map (\<lambda>i. (f (ta ! i), g (tb ! i))) [0..<n]) = map f (take n ta)"
  by (auto simp: list_eq_iff_nth_eq)

lemma map_snd_fakes:
  "n \<le> length tb \<Longrightarrow> map snd (map (\<lambda>i. (f (ta ! i), g (tb ! i))) [0..<n]) = map g (take n tb)"
  by (auto simp: list_eq_iff_nth_eq)

lemma accumulate_step_Inr_D:
  assumes "accumulate_step L ta tb fb fa i s = Inr s'"
  shows "py_slice ta (i - self_t s) i \<noteq> [] \<and> self_t s' = self_t s"
  using assms
  by (auto simp: accumulate_step_def Let_def bind_result_Inr_iff split_beta torch_cat_def
      split: if_splits)

lemma accumulate_Inr_D:
  assumes "accumulate L ta tb fb fa steps s = Inr s'" "i \<in> set steps"
  shows "py_slice ta (i - self_t s) i \<noteq> []"
  using assms
proof (induction steps arbitrary: s)
  case Nil
  then show ?case by simp
next
  case (Cons j steps)
  then obtain s1 where s1: "accumulate_step L ta tb fb fa j s = Inr s1"
    and rest: "accumulate L ta tb fb fa steps s1 = Inr s'"
    by (auto split: sum.splits)
  from accumulate_step_Inr_D[OF s1] have a: "py_slice ta (j - self_t s) j \<noteq> []" and b: "self_t s1 = self_t s"
    by simp_all
  show ?case
  proof (cases "i = j")
    case True
    with a show ?thesis by simp
  next
    case False
    with Cons.prems have "i \<in> set steps" by simp
    from Cons.IH[OF rest this] b show ?thesis by simp
  qed
qed

lemma update_Inr_iff:
  "update s = Inr s' \<longleftrightarrow>
     (\<exists>lg ld. loss_G s = Some (Tensor lg) \<and> loss_D s = Some (Tensor ld)
        \<and> s' = s\<lparr> events := events s @
                      [Zero_grad (optim_G s), Loss_backward lg, Step (optim_G s),
                       Zero_grad (optim_D s), Loss_backward ld, Step (optim_D s)] \<rparr>)"
  by (auto simp: update_def split: option.splits pynum.splits)

lemma backward_returns:
  assumes a: "true_a_seq s = Some a" and b: "true_b_seq s = Some b" and tr: "trainable L s a b"
  shows "backward L s = update (after_accumulation L s a b)"
proof -
  define t where "t = nat (self_t s)"
  define T where "T = nat (self_T s)"
  define ta where "ta = true_frames L s a"
  define tb where "tb = true_frames L s b"
  define fb where "fb = fake_frames L s (G_A_to_B s) ta"
  define fa where "fa = fake_frames L s (G_B_to_A s) tb"
  define s1 where "s1 = s\<lparr>loss_D := Some (PyFloat 0), loss_G := Some (PyFloat 0)\<rparr>"
  from tr have tT: "0 < t" "t < T" "int t = self_t s" "int T = self_T s"
    and len: "T \<le> length ta" "T \<le> length tb"
    by (simp_all add: trainable_def t_def T_def ta_def tb_def true_frames_def)
  have chunks: "torch_chunk L a (self_T s) = Inr (chunk L a (self_T s))"
    "torch_chunk L b (self_T s) = Inr (chunk L b (self_T s))"
    using tr by (simp_all add: torch_chunk_def trainable_def)
  have tf: "translate_frames L s1 ta tb =
      Inr (map (\<lambda>i. (call L (G_A_to_B s) (ta ! i), call L (G_B_to_A s) (tb ! i))) [0..<T])"
    using translate_frames_nat[of s1 ta tb L] len tT by (simp add: s1_def T_def)
  have fakes: "map fst (map (\<lambda>i. (call L (G_A_to_B s) (ta ! i), call L (G_B_to_A s) (tb ! i))) [0..<T]) = fb"
    "map snd (map (\<lambda>i. (call L (G_A_to_B s) (ta ! i), call L (G_B_to_A s) (tb ! i))) [0..<T]) = fa"
    using len by (simp_all only: map_fst_fakes map_snd_fakes fb_def fa_def fake_frames_def T_def)
  have lenf: "length fb = T" "length fa = T"
    using len by (simp_all add: fb_def fa_def fake_frames_def T_def)
  have range: "py_range (self_t s1) (self_T s1) = map int [t..<T]"
    using py_range_nat[of t T] tT by (simp add: s1_def)
  have acc: "accumulate L ta tb fb fa (map int [t..<T]) s1 =
         Inr (s1\<lparr> loss_G := Some (accumulated L (PyFloat 0) (concat (map (generator_terms L s1 ta tb fb fa) [t..<T]))),
                  loss_D := Some (accumulated L (PyFloat 0) (concat (map (discriminator_terms L s1 ta tb)
                     (zip [t..<T]
                        (zip (fst (push_all L (fake_b_buffer s1) (map ((!) fb) [t..<T])))
                             (fst (push_all L (fake_a_buffer s1) (map ((!) fa) [t..<T])))))))),
                  fake_b_buffer := snd (push_all L (fake_b_buffer s1) (map ((!) fb) [t..<T])),
                  fake_a_buffer := snd (push_all L (fake_a_buffer s1) (map ((!) fa) [t..<T])) \<rparr>)"
    using tT len lenf by (intro accumulate_nat[where t=t]) (simp_all add: s1_def)
  have final: "s1\<lparr> loss_G := Some (accumulated L (PyFloat 0) (concat (map (generator_terms L s1 ta tb fb fa) [t..<T]))),
                  loss_D := Some (accumulated L (PyFloat 0) (concat (map (discriminator_terms L s1 ta tb)
                     (zip [t..<T]
                        (zip (fst (push_all L (fake_b_buffer s1) (map ((!) fb) [t..<T])))
                             (fst (push_all L (fake_a_buffer s1) (map ((!) fa) [t..<T])))))))),
                  fake_b_buffer := snd (push_all L (fake_b_buffer s1) (map ((!) fb) [t..<T])),
                  fake_a_buffer := snd (push_all L (fake_a_buffer s1) (map ((!) fa) [t..<T])) \<rparr>
      = after_accumulation L s a b"
    by (simp add: after_accumulation_def Let_def s1_def time_steps_def t_def T_def ta_def tb_def fb_def fa_def)
  have "backward L s = bind_result (translate_frames L s1 ta tb) (\<lambda>fakes.
     bind_result
       (accumulate L ta tb (map fst fakes) (map snd fakes) (py_range (self_t s1) (self_T s1)) s1)
       update)"
    using a b chunks
    by (simp add: backward_def bind_result_simps Let_def s1_def ta_def tb_def true_frames_def)
  also have "\<dots> = bind_result (accumulate L ta tb fb fa (map int [t..<T]) s1) update"
    by (simp only: tf bind_result_simps fakes range)
  also have "\<dots> = update (after_accumulation L s a b)"
    by (simp only: acc bind_result_simps final)
  finally show ?thesis .
qed

lemma backward_Inr_trainable:
  assumes a: "true_a_seq s = Some a" and b: "true_b_seq s = Some b" and r: "backward L s = Inr s'"
  shows "trainable L s a b"
proof -
  define s1 where "s1 = s\<lparr>loss_D := Some (PyFloat 0), loss_G := Some (PyFloat 0)\<rparr>"
  define ta where "ta = map (squeeze L) (chunk L a (self_T s))"
  define tb where "tb = map (squeeze L) (chunk L b (self_T s))"
  from r a b obtain fakes s2 where
    T: "0 < self_T s"
    and tf: "translate_frames L s1 ta tb = Inr fakes"
    and acc: "accumulate L ta tb (map fst fakes) (map snd fakes) (py_range (self_t s) (self_T s)) s1 = Inr s2"
    and upd: "update s2 = Inr s'"
    by (auto simp: backward_def Let_def bind_result_Inr_iff torch_chunk_def s1_def ta_def tb_def
        split: if_splits)
  from translate_frames_Inr_D[OF tf] T
  have len: "nat (self_T s) \<le> length (chunk L a (self_T s))" "nat (self_T s) \<le> length (chunk L b (self_T s))"
    by (simp_all add: s1_def ta_def tb_def)
  have lt: "self_t s < self_T s"
  proof (rule ccontr)
    assume "\<not> self_t s < self_T s"
    then have "py_range (self_t s) (self_T s) = []" by (simp add: py_range_empty)
    with acc have "s2 = s1" by simp
    with upd show False by (simp add: update_Inr_iff s1_def)
  qed
  have pos: "0 < self_t s"
  proof (rule ccontr)
    assume "\<not> 0 < self_t s"
    then have "0 \<in> set (py_range (self_t s) (self_T s))"
      using T by (simp add: py_range_mem)
    from accumulate_Inr_D[OF acc this] have "py_slice ta (0 - self_t s) 0 \<noteq> []"
      by (simp add: s1_def)
    moreover have "py_slice ta (0 - self_t s) 0 = []"
      using \<open>\<not> 0 < self_t s\<close> by (intro py_slice_to_zero) simp
    ultimately show False by simp
  qed
  from pos lt len show ?thesis by (simp add: trainable_def)
qed

section \<open>What \<^verbatim>\<open>backward\<close> and the other methods keep\<close>

lemma backward_Inr_inputs:
  assumes "backward L s = Inr s'"
  shows "\<exists>a b. true_a_seq s = Some a \<and> true_b_seq s = Some b"
  using assms
  by (auto simp: backward_def bind_result_Inr_iff Let_def split: option.splits)

lemma backward_Inr_update:
  assumes "true_a_seq s = Some a" "true_b_seq s = Some b" "backward L s = Inr s'"
  shows "update (after_accumulation L s a b) = Inr s'"
  using backward_returns[OF assms(1,2) backward_Inr_trainable[OF assms]] assms(3) by simp

lemma length_push_all: "length (fst (push_all L buf xs)) = length xs"
  by (induction xs arbitrary: buf) (simp_all add: split_beta)

lemma accumulated_push_and_pop_upd:
  "accumulated (L\<lparr>push_and_pop := pp\<rparr>) v xs = accumulated L v xs"
  by (induction xs arbitrary: v) (simp_all split: pynum.splits)

lemma generator_terms_buffers:
  "generator_terms (L\<lparr>push_and_pop := pp\<rparr>) (s\<lparr>fake_a_buffer := ba, fake_b_buffer := bb\<rparr>) = generator_terms L s"
  by (simp add: generator_terms_def updateGenerator_def tuple_before_def fun_eq_iff)

lemma backward_keeps:
  assumes "backward L s = Inr s'"
  shows "self_t s' = self_t s" "self_T s' = self_T s" "device s' = device s"
    "G_A_to_B s' = G_A_to_B s" "G_B_to_A s' = G_B_to_A s" "P_A s' = P_A s" "P_B s' = P_B s"
    "D_A s' = D_A s" "D_B s' = D_B s" "criterion_adv s' = criterion_adv s"
    "criterion_l2 s' = criterion_l2 s" "optim_G s' = optim_G s" "optim_D s' = optim_D s"
    "true_a_seq s' = true_a_seq s" "true_b_seq s' = true_b_seq s"
proof -
  from backward_Inr_inputs[OF assms] obtain a b
    where ab: "true_a_seq s = Some a" "true_b_seq s = Some b" by blast
  from backward_Inr_update[OF ab assms] obtain ev
    where s': "s' = (after_accumulation L s a b)\<lparr>events := ev\<rparr>"
    by (auto simp: update_Inr_iff)
  show "self_t s' = self_t s" "self_T s' = self_T s" "device s' = device s"
    "G_A_to_B s' = G_A_to_B s" "G_B_to_A s' = G_B_to_A s" "P_A s' = P_A s" "P_B s' = P_B s"
    "D_A s' = D_A s" "D_B s' = D_B s" "criterion_adv s' = criterion_adv s"
    "criterion_l2 s' = criterion_l2 s" "optim_G s' = optim_G s" "optim_D s' = optim_D s"
    "true_a_seq s' = true_a_seq s" "true_b_seq s' = true_b_seq s"
    by (simp_all add: s' after_accumulation_def Let_def)
qed

lemma reachable_fields:
  assumes "reachable L A_channel B_channel T t r dev s"
  shows "self_t s = t \<and> self_T s = T + t
    \<and> G_A_to_B s = SpatialTranslationModel L A_channel B_channel r
    \<and> G_B_to_A s = SpatialTranslationModel L B_channel A_channel r
    \<and> P_A s = TemporalPredictorModel L (t * A_channel) A_channel r
    \<and> P_B s = TemporalPredictorModel L (t * B_channel) B_channel r
    \<and> D_A s = Discriminator L A_channel r
    \<and> D_B s = Discriminator L B_channel r
    \<and> criterion_adv s = GANLoss L \<and> criterion_l2 s = MSELoss L
    \<and> optim_G s = Adam (parameters L (G_A_to_B s) @ parameters L (G_B_to_A s)
                         @ parameters L (P_A s) @ parameters L (P_B s)) 0.001
    \<and> optim_D s = Adam (parameters L (D_A s) @ parameters L (D_B s)) 0.0001"
  using assms
proof (induction rule: reachable.induct)
  case constructed
  show ?case by (simp add: init_def Let_def)
next
  case (after_setInput self a_seq b_seq)
  then show ?case by (simp add: setInput_def)
next
  case (after_backward self self')
  from backward_keeps[OF after_backward.hyps(2)] after_backward.IH
  show ?case by simp
qed


lemma accumulated_from_Tensor: "\<exists>x. accumulated L (Tensor u) xs = Tensor x"
  by (induction xs arbitrary: u) simp_all

lemma accumulated_Tensor: "xs \<noteq> [] \<Longrightarrow> \<exists>x. accumulated L v xs = Tensor x"
  by (cases xs) (simp_all add: accumulated_from_Tensor)

lemma after_accumulation_losses:
  assumes "trainable L s a b"
  shows "\<exists>x y. loss_G (after_accumulation L s a b) = Some (Tensor x)
             \<and> loss_D (after_accumulation L s a b) = Some (Tensor y)"
proof -
  from assms obtain i rest where steps: "time_steps s = i # rest"
    by (cases "time_steps s") (auto simp: trainable_def time_steps_def)
  let ?fb = "fake_frames L s (G_A_to_B s) (true_frames L s a)"
  let ?fa = "fake_frames L s (G_B_to_A s) (true_frames L s b)"
  let ?pb = "fst (push_all L (fake_b_buffer s) (map ((!) ?fb) (time_steps s)))"
  let ?pa = "fst (push_all L (fake_a_buffer s) (map ((!) ?fa) (time_steps s)))"
  have "length ?pb = length (time_steps s)" "length ?pa = length (time_steps s)"
    by (simp_all add: length_push_all)
  with steps obtain yb ybs ya yas where "?pb = yb # ybs" "?pa = ya # yas"
    by (cases ?pb; cases ?pa) simp_all
  with steps have "concat (map (discriminator_terms L s (true_frames L s a) (true_frames L s b))
      (zip (time_steps s) (zip ?pb ?pa))) \<noteq> []"
    by (simp add: discriminator_terms_def)
  from accumulated_Tensor[OF this]
  obtain y where y: "accumulated L (PyFloat 0) (concat (map (discriminator_terms L s (true_frames L s a) (true_frames L s b))
      (zip (time_steps s) (zip ?pb ?pa)))) = Tensor y" by blast
  from steps have "concat (map (generator_terms L s (true_frames L s a) (true_frames L s b) ?fb ?fa)
      (time_steps s)) \<noteq> []"
    by (simp add: generator_terms_def)
  from accumulated_Tensor[OF this]
  obtain x where x: "accumulated L (PyFloat 0) (concat (map (generator_terms L s (true_frames L s a) (true_frames L s b) ?fb ?fa)
      (time_steps s))) = Tensor x" by blast
  from x y show ?thesis
    by (simp add: after_accumulation_def Let_def)
qed

lemma backward_trainable_returns:
  assumes "true_a_seq s = Some a" "true_b_seq s = Some b" "trainable L s a b"
  shows "\<exists>s'. backward L s = Inr s'"
proof -
  from after_accumulation_losses[OF assms(3)]
  have "\<exists>s'. update (after_accumulation L s a b) = Inr s'"
    by (auto simp: update_Inr_iff)
  with backward_returns[OF assms] show ?thesis by simp
qed

section \<open>The results of \<^verbatim>\<open>forward\<close>\<close>

lemma render_Inr_iff:
  "render L t G_X_to_Y G_Y_to_X P_X P_Y true_x frames = Inr res \<longleftrightarrow>
     0 < t \<and> t \<le> int (length frames)
     \<and> res = (call L G_X_to_Y true_x,
              call L P_Y (cat L (map (call L G_X_to_Y) (take (nat t) frames))),
              spec_fake L t G_X_to_Y P_Y true_x frames,
              reco_all_frames L t G_X_to_Y G_Y_to_X P_X P_Y frames)"
  by (auto simp: render_eq reco_all_frames_def)

lemma forward_Inr_iff:
  "forward L self true_a true_b a_seq b_seq warning = Inr d \<longleftrightarrow>
     \<not> (true_a = None \<and> true_b = None \<and> a_seq = None \<and> b_seq = None)
     \<and> (true_a = None) = (a_seq = None) \<and> (true_b = None) = (b_seq = None)
     \<and> enough_frames self a_seq \<and> enough_frames self b_seq
     \<and> d = [(''true_a'', true_a),
            (''fake_b_spat'', map_option (\<lambda>a. call L (G_A_to_B self) a) true_a),
            (''fake_b_temp'', map_option (\<lambda>frames. call L (P_B self)
                 (cat L (map (call L (G_A_to_B self)) (take (nat (self_t self)) frames)))) a_seq),
            (''fake_b'', case (true_a, a_seq) of
                 (Some a, Some frames) \<Rightarrow>
                    Some (spec_fake L (self_t self) (G_A_to_B self) (P_B self) a frames)
               | _ \<Rightarrow> None),
            (''reco_a'', map_option (reco_all_frames L (self_t self)
                 (G_A_to_B self) (G_B_to_A self) (P_A self) (P_B self)) a_seq),
            (''true_b'', true_b),
            (''fake_a_spat'', map_option (\<lambda>b. call L (G_B_to_A self) b) true_b),
            (''fake_a_temp'', map_option (\<lambda>frames. call L (P_A self)
                 (cat L (map (call L (G_B_to_A self)) (take (nat (self_t self)) frames)))) b_seq),
            (''fake_a'', case (true_b, b_seq) of
                 (Some b, Some frames) \<Rightarrow>
                    Some (spec_fake L (self_t self) (G_B_to_A self) (P_A self) b frames)
               | _ \<Rightarrow> None),
            (''reco_b'', map_option (reco_all_frames L (self_t self)
                 (G_B_to_A self) (G_A_to_B self) (P_B self) (P_A self)) b_seq)]"
  by (cases true_a; cases true_b; cases a_seq; cases b_seq)
     (auto simp: forward_def bind_result_Inr_iff render_Inr_iff enough_frames_def)

lemma forward_all_None:
  "forward L self None None None None warning = Inl Exception_all_None"
  by (simp add: forward_def)

lemma forward_domain_A:
  "(true_a = None) \<noteq> (a_seq = None)
   \<Longrightarrow> forward L self true_a true_b a_seq b_seq warning = Inl Exception_domain_A"
  by (cases true_a; cases a_seq) (simp_all add: forward_def bind_result_simps)

lemma forward_domain_B:
  assumes "(true_a = None) = (a_seq = None)" "(true_b = None) \<noteq> (b_seq = None)"
  shows "isl (forward L self true_a true_b a_seq b_seq warning)"
    and "enough_frames self a_seq
         \<Longrightarrow> forward L self true_a true_b a_seq b_seq warning = Inl Exception_domain_B"
  using assms
  by (cases true_a; cases a_seq; cases true_b; cases b_seq;
      simp add: forward_def bind_result_simps render_eq enough_frames_def)+

lemma forward_short_A:
  assumes "0 < self_t self" "int (length frames) < self_t self"
  shows "forward L self (Some a) true_b (Some frames) b_seq warning = Inl IndexError"
  using assms by (simp add: forward_def bind_result_simps render_eq)

lemma forward_short_B:
  assumes "(true_a = None) = (a_seq = None)" "enough_frames self a_seq"
    "0 < self_t self" "int (length frames) < self_t self"
  shows "forward L self true_a (Some b) a_seq (Some frames) warning = Inl IndexError"
  using assms
  by (cases true_a; cases a_seq; simp add: forward_def bind_result_simps render_eq enough_frames_def)




section \<open>The instance at work\<close>

lemma example_backward: "backward example_lib example_with_input = Inr example_trained"
  by (simp add: example_trained_def example_with_input_def example_module_def
      backward_def setInput_def init_def example_lib_def Let_def bind_result_def
      torch_chunk_def translate_frames_def py_range_def upto.simps py_index_def
      accumulate_step_def py_slice_def torch_cat_def iadd_def updateGenerator_def
      updateDiscriminator_def update_def)

lemma example_inputs:
  "true_a_seq example_with_input = Some [1, 2]" "true_b_seq example_with_input = Some [3, 4]"
  by (simp_all add: example_with_input_def setInput_def example_lib_def)

lemma example_reachable: "reachable example_lib 3 3 1 1 1 ''cpu'' example_with_input"
  unfolding example_with_input_def example_module_def
  by (intro reachable.after_setInput reachable.constructed)

lemma example_forward:
  "forward example_lib (example_module 1 1) (Some [1]) (Some [3]) (Some [[1]]) (Some [[3]]) False
   = Inr example_dict"
  by (simp add: forward_def example_module_def init_def example_lib_def render_def
      bind_result_def py_range_def upto.simps py_index_def torch_cat_def Let_def example_dict_def)

lemma example_module_t: "self_t (example_module T t) = t"
  by (simp add: example_module_def init_def Let_def)



section \<open>The properties of the module\<close>

text \<open>
  Claim C4, as amended. A call of \<^verbatim>\<open>backward\<close> after \<^verbatim>\<open>setInput\<close> runs to its end
  exactly when the tuple size is positive, there is a time step and each stored sequence
  is cut into at least \<open>self.T\<close> pieces (otherwise it raises). Every call that runs to
  its end has cut
  each stored sequence into frames with \<^verbatim>\<open>torch.chunk(seq, self.T, dim = 1)\<close>, of which
  there are at least \<open>self.T\<close>; has translated each of the first \<open>self.T\<close> frames to the
  other domain; has added to \<open>loss_G\<close>, starting from \<open>0.0\<close>, the generator loss of the
  direction A to B and then of the direction B to A for each time step
  \<open>i = self.t, \<dots>, self.T - 1\<close> in turn, and to \<open>loss_D\<close> the two discriminator losses of
  each of these time steps; and has then made exactly the calls
  \<^verbatim>\<open>optim_G.zero_grad()\<close>, \<^verbatim>\<open>loss_G.backward()\<close>, \<^verbatim>\<open>optim_G.step()\<close>,
  \<^verbatim>\<open>optim_D.zero_grad()\<close>, \<^verbatim>\<open>loss_D.backward()\<close>, \<^verbatim>\<open>optim_D.step()\<close>: one step of the
  optimizer of the generators and predictors, followed by one step of the optimizer of
  the discriminators.
\<close>

theorem backward_accumulates_then_steps:
  assumes "true_a_seq self = Some a_seq" and "true_b_seq self = Some b_seq"
  shows "((\<exists>returned. backward L self = Inr returned) = trainable L self a_seq b_seq)
       \<and> (backward L self = Inr self' \<longrightarrow>
           (let ta = true_frames L self a_seq;
                tb = true_frames L self b_seq;
                fb = map (call L (G_A_to_B self)) (take (nat (self_T self)) ta);
                fa = map (call L (G_B_to_A self)) (take (nat (self_T self)) tb);
                steps = [nat (self_t self)..<nat (self_T self)]
            in nat (self_T self) \<le> length ta \<and> nat (self_T self) \<le> length tb
             \<and> 0 < self_t self \<and> steps \<noteq> []
             \<and> loss_G self' = Some (accumulated L (PyFloat 0)
                   (concat (map (generator_terms L self ta tb fb fa) steps)))
             \<and> (\<exists>alter_b alter_a. length alter_b = length steps \<and> length alter_a = length steps
                   \<and> loss_D self' = Some (accumulated L (PyFloat 0)
                         (concat (map (discriminator_terms L self ta tb)
                                      (zip steps (zip alter_b alter_a))))))
             \<and> (\<exists>loss_G' loss_D'. loss_G self' = Some (Tensor loss_G')
                   \<and> loss_D self' = Some (Tensor loss_D')
                   \<and> events self' = events self @
                        [Zero_grad (optim_G self), Loss_backward loss_G', Step (optim_G self),
                         Zero_grad (optim_D self), Loss_backward loss_D', Step (optim_D self)])))"
proof (intro conjI impI)
  show "(\<exists>returned. backward L self = Inr returned) = trainable L self a_seq b_seq"
    using backward_Inr_trainable[OF assms] backward_trainable_returns[OF assms] by blast
next
  assume returned: "backward L self = Inr self'"
  note assms = assms returned
  show "let ta = true_frames L self a_seq;
            tb = true_frames L self b_seq;
            fb = map (call L (G_A_to_B self)) (take (nat (self_T self)) ta);
            fa = map (call L (G_B_to_A self)) (take (nat (self_T self)) tb);
            steps = [nat (self_t self)..<nat (self_T self)]
        in nat (self_T self) \<le> length ta \<and> nat (self_T self) \<le> length tb
         \<and> 0 < self_t self \<and> steps \<noteq> []
         \<and> loss_G self' = Some (accumulated L (PyFloat 0)
               (concat (map (generator_terms L self ta tb fb fa) steps)))
         \<and> (\<exists>alter_b alter_a. length alter_b = length steps \<and> length alter_a = length steps
               \<and> loss_D self' = Some (accumulated L (PyFloat 0)
                     (concat (map (discriminator_terms L self ta tb)
                                  (zip steps (zip alter_b alter_a))))))
         \<and> (\<exists>loss_G' loss_D'. loss_G self' = Some (Tensor loss_G')
               \<and> loss_D self' = Some (Tensor loss_D')
               \<and> events self' = events self @
                    [Zero_grad (optim_G self), Loss_backward loss_G', Step (optim_G self),
                     Zero_grad (optim_D self), Loss_backward loss_D', Step (optim_D self)])"
  proof -
    from backward_Inr_trainable[OF assms] have tr: "trainable L self a_seq b_seq" .
    from backward_Inr_update[OF assms] obtain lg ld where
      lg: "loss_G (after_accumulation L self a_seq b_seq) = Some (Tensor lg)"
      and ld: "loss_D (after_accumulation L self a_seq b_seq) = Some (Tensor ld)"
      and s': "self' = (after_accumulation L self a_seq b_seq)\<lparr> events :=
                  events (after_accumulation L self a_seq b_seq) @
                    [Zero_grad (optim_G (after_accumulation L self a_seq b_seq)), Loss_backward lg,
                     Step (optim_G (after_accumulation L self a_seq b_seq)),
                     Zero_grad (optim_D (after_accumulation L self a_seq b_seq)), Loss_backward ld,
                     Step (optim_D (after_accumulation L self a_seq b_seq))] \<rparr>"
      by (auto simp: update_Inr_iff)
    have G: "loss_G self' = loss_G (after_accumulation L self a_seq b_seq)"
      and D: "loss_D self' = loss_D (after_accumulation L self a_seq b_seq)"
      by (simp_all add: s')
    have ev: "events self' = events self @
                       [Zero_grad (optim_G self), Loss_backward lg, Step (optim_G self),
                        Zero_grad (optim_D self), Loss_backward ld, Step (optim_D self)]"
      by (simp add: s' after_accumulation_def Let_def)
    from tr have len: "nat (self_T self) \<le> length (true_frames L self a_seq)"
        "nat (self_T self) \<le> length (true_frames L self b_seq)"
      and t: "0 < self_t self" and steps: "[nat (self_t self)..<nat (self_T self)] \<noteq> []"
      by (auto simp: trainable_def true_frames_def)
    have lossG: "loss_G self' = Some (accumulated L (PyFloat 0)
          (concat (map (generator_terms L self (true_frames L self a_seq) (true_frames L self b_seq)
              (map (call L (G_A_to_B self)) (take (nat (self_T self)) (true_frames L self a_seq)))
              (map (call L (G_B_to_A self)) (take (nat (self_T self)) (true_frames L self b_seq))))
            [nat (self_t self)..<nat (self_T self)])))"
      by (simp add: G after_accumulation_def Let_def fake_frames_def time_steps_def)
    let ?fb = "fake_frames L self (G_A_to_B self) (true_frames L self a_seq)"
    let ?fa = "fake_frames L self (G_B_to_A self) (true_frames L self b_seq)"
    let ?alter_b = "fst (push_all L (fake_b_buffer self) (map ((!) ?fb) (time_steps self)))"
    let ?alter_a = "fst (push_all L (fake_a_buffer self) (map ((!) ?fa) (time_steps self)))"
    have lossD: "loss_D self' = Some (accumulated L (PyFloat 0)
          (concat (map (discriminator_terms L self (true_frames L self a_seq) (true_frames L self b_seq))
                       (zip [nat (self_t self)..<nat (self_T self)] (zip ?alter_b ?alter_a)))))"
      by (simp add: D after_accumulation_def Let_def time_steps_def)
    have lens: "length ?alter_b = length [nat (self_t self)..<nat (self_T self)]"
      "length ?alter_a = length [nat (self_t self)..<nat (self_T self)]"
      by (simp_all add: length_push_all time_steps_def)
    from lossD lens have exD: "\<exists>alter_b alter_a.
        length alter_b = length [nat (self_t self)..<nat (self_T self)]
        \<and> length alter_a = length [nat (self_t self)..<nat (self_T self)]
        \<and> loss_D self' = Some (accumulated L (PyFloat 0)
             (concat (map (discriminator_terms L self (true_frames L self a_seq) (true_frames L self b_seq))
                          (zip [nat (self_t self)..<nat (self_T self)] (zip alter_b alter_a)))))"
      by blast
    from lg ld G D ev have exE: "\<exists>loss_G' loss_D'. loss_G self' = Some (Tensor loss_G')
                  \<and> loss_D self' = Some (Tensor loss_D')
                  \<and> events self' = events self @
                       [Zero_grad (optim_G self), Loss_backward loss_G', Step (optim_G self),
                        Zero_grad (optim_D self), Loss_backward loss_D', Step (optim_D self)]"
      by simp
    from len t steps lossG exD exE show ?thesis
      unfolding Let_def by (intro conjI)
  qed
qed

text \<open>The call on the instance: two frames per domain, one time step.\<close>

theorem backward_accumulates_then_steps_witness:
  "true_a_seq example_with_input = Some [1, 2] \<and> true_b_seq example_with_input = Some [3, 4]
   \<and> trainable example_lib example_with_input [1, 2] [3, 4]
   \<and> backward example_lib example_with_input = Inr example_trained
   \<and> (let ta = true_frames example_lib example_with_input [1, 2];
           tb = true_frames example_lib example_with_input [3, 4];
           fb = map (call example_lib (G_A_to_B example_with_input))
                  (take (nat (self_T example_with_input)) ta);
           fa = map (call example_lib (G_B_to_A example_with_input))
                  (take (nat (self_T example_with_input)) tb);
           steps = [nat (self_t example_with_input)..<nat (self_T example_with_input)]
       in nat (self_T example_with_input) \<le> length ta \<and> nat (self_T example_with_input) \<le> length tb
        \<and> 0 < self_t example_with_input \<and> steps \<noteq> []
        \<and> loss_G example_trained = Some (accumulated example_lib (PyFloat 0)
              (concat (map (generator_terms example_lib example_with_input ta tb fb fa) steps)))
        \<and> (\<exists>alter_b alter_a. length alter_b = length steps \<and> length alter_a = length steps
              \<and> loss_D example_trained = Some (accumulated example_lib (PyFloat 0)
                    (concat (map (discriminator_terms example_lib example_with_input ta tb)
                                 (zip steps (zip alter_b alter_a))))))
        \<and> (\<exists>loss_G' loss_D'. loss_G example_trained = Some (Tensor loss_G')
              \<and> loss_D example_trained = Some (Tensor loss_D')
              \<and> events example_trained = events example_with_input @
                   [Zero_grad (optim_G example_with_input), Loss_backward loss_G',
                    Step (optim_G example_with_input),
                    Zero_grad (optim_D example_with_input), Loss_backward loss_D',
                    Step (optim_D example_with_input)]))"
proof -
  note run = backward_accumulates_then_steps[OF example_inputs, of example_lib example_trained]
  from run example_backward have "trainable example_lib example_with_input [1, 2] [3, 4]"
    by blast
  with run example_inputs example_backward show ?thesis
    by blast
qed

text \<open>
  Claim C4 as it was stated speaks of every call of \<^verbatim>\<open>backward\<close> after \<^verbatim>\<open>setInput\<close>.
  With \<open>T = 2\<close>, \<open>t = 1\<close> and stored sequences of two frames (\<open>T + t - 1\<close> frames, the
  length the comment at the head of the source names), \<open>self.T\<close> is 3,
  \<^verbatim>\<open>torch.chunk\<close> yields two pieces and \<^verbatim>\<open>true_a_frame_list[2]\<close> raises in the loop that
  translates the frames (lines 225 to 227), which comes before the accumulation and
  before the optimizer steps.
\<close>

theorem backward_raises_counterexample:
  "reachable example_lib 3 3 2 1 1 ''cpu'' (setInput example_lib (example_module 2 1) [1, 2] [3, 4])
   \<and> true_a_seq (setInput example_lib (example_module 2 1) [1, 2] [3, 4]) = Some [1, 2]
   \<and> true_b_seq (setInput example_lib (example_module 2 1) [1, 2] [3, 4]) = Some [3, 4]
   \<and> backward example_lib (setInput example_lib (example_module 2 1) [1, 2] [3, 4]) = Inl IndexError"
proof -
  have "reachable example_lib 3 3 2 1 1 ''cpu'' (setInput example_lib (example_module 2 1) [1, 2] [3, 4])"
    unfolding example_module_def by (intro reachable.after_setInput reachable.constructed)
  moreover have "true_a_seq (setInput example_lib (example_module 2 1) [1, 2] [3, 4]) = Some [1, 2]"
    "true_b_seq (setInput example_lib (example_module 2 1) [1, 2] [3, 4]) = Some [3, 4]"
    by (simp_all add: setInput_def example_lib_def)
  moreover have "backward example_lib (setInput example_lib (example_module 2 1) [1, 2] [3, 4]) = Inl IndexError"
    by (simp add: example_module_def backward_def setInput_def init_def example_lib_def Let_def
        bind_result_def torch_chunk_def translate_frames_def py_range_def upto.simps py_index_def)
  ultimately show ?thesis by blast
qed

text \<open>
  Claim C6. In every call of \<^verbatim>\<open>backward\<close> that runs to its end, the discriminator
  losses of a time step are computed on the frames that the replay buffers hand back:
  the frame of \<open>fake_b_frame_list\<close> of each time step is pushed, in order, into
  \<open>fake_b_buffer\<close>, and \<open>D_B\<close> is applied to what \<^verbatim>\<open>push_and_pop\<close> returned for it
  (\<open>alter_fake_b\<close>); the same holds for \<open>fake_a_buffer\<close>, \<open>alter_fake_a\<close> and \<open>D_A\<close>. The
  generator loss is computed from the tuples of true and of translated frames and from
  the true frames of the time step, and no buffer enters it: with any other buffers and
  any other \<^verbatim>\<open>push_and_pop\<close> the call returns as well, with the same generator loss.
\<close>

theorem discriminator_on_buffered_frames:
  assumes "true_a_seq self = Some a_seq" and "true_b_seq self = Some b_seq"
    and "backward L self = Inr self'"
  shows "let ta = true_frames L self a_seq;
             tb = true_frames L self b_seq;
             fb = map (call L (G_A_to_B self)) (take (nat (self_T self)) ta);
             fa = map (call L (G_B_to_A self)) (take (nat (self_T self)) tb);
             steps = [nat (self_t self)..<nat (self_T self)];
             popped_b = push_all L (fake_b_buffer self) (map (\<lambda>i. fb ! i) steps);
             popped_a = push_all L (fake_a_buffer self) (map (\<lambda>i. fa ! i) steps)
         in loss_D self' = Some (accumulated L (PyFloat 0)
                (concat (map (discriminator_terms L self ta tb)
                             (zip steps (zip (fst popped_b) (fst popped_a))))))
          \<and> fake_b_buffer self' = snd popped_b
          \<and> fake_a_buffer self' = snd popped_a
          \<and> loss_G self' = Some (accumulated L (PyFloat 0)
                (concat (map (generator_terms L self ta tb fb fa) steps)))
          \<and> (\<exists>other. backward (L\<lparr>push_and_pop := pp\<rparr>)
                          (self\<lparr>fake_a_buffer := buf_a, fake_b_buffer := buf_b\<rparr>) = Inr other
                      \<and> loss_G other = loss_G self')"
proof -
  let ?L = "L\<lparr>push_and_pop := pp\<rparr>"
  let ?self = "self\<lparr>fake_a_buffer := buf_a, fake_b_buffer := buf_b\<rparr>"
  let ?acc = "after_accumulation L self a_seq b_seq"
  from backward_Inr_trainable[OF assms] have tr: "trainable L self a_seq b_seq" .
  from backward_Inr_update[OF assms] obtain ev where lgT: "\<exists>x. loss_G ?acc = Some (Tensor x)"
    and ldT: "\<exists>x. loss_D ?acc = Some (Tensor x)"
    and s': "self' = ?acc\<lparr>events := ev\<rparr>"
    by (auto simp: update_Inr_iff)
  have D: "loss_D self' = Some (accumulated L (PyFloat 0)
       (concat (map (discriminator_terms L self (true_frames L self a_seq) (true_frames L self b_seq))
          (zip [nat (self_t self)..<nat (self_T self)]
            (zip (fst (push_all L (fake_b_buffer self)
                    (map (\<lambda>i. map (call L (G_A_to_B self)) (take (nat (self_T self)) (true_frames L self a_seq)) ! i)
                       [nat (self_t self)..<nat (self_T self)])))
                 (fst (push_all L (fake_a_buffer self)
                    (map (\<lambda>i. map (call L (G_B_to_A self)) (take (nat (self_T self)) (true_frames L self b_seq)) ! i)
                       [nat (self_t self)..<nat (self_T self)]))))))))"
    by (simp add: s' after_accumulation_def Let_def fake_frames_def time_steps_def)
  have B: "fake_b_buffer self' = snd (push_all L (fake_b_buffer self)
                    (map (\<lambda>i. map (call L (G_A_to_B self)) (take (nat (self_T self)) (true_frames L self a_seq)) ! i)
                       [nat (self_t self)..<nat (self_T self)]))"
    and A: "fake_a_buffer self' = snd (push_all L (fake_a_buffer self)
                    (map (\<lambda>i. map (call L (G_B_to_A self)) (take (nat (self_T self)) (true_frames L self b_seq)) ! i)
                       [nat (self_t self)..<nat (self_T self)]))"
    by (simp_all add: s' after_accumulation_def Let_def fake_frames_def time_steps_def)
  have G: "loss_G self' = Some (accumulated L (PyFloat 0)
        (concat (map (generator_terms L self (true_frames L self a_seq) (true_frames L self b_seq)
            (map (call L (G_A_to_B self)) (take (nat (self_T self)) (true_frames L self a_seq)))
            (map (call L (G_B_to_A self)) (take (nat (self_T self)) (true_frames L self b_seq))))
          [nat (self_t self)..<nat (self_T self)])))"
    by (simp add: s' after_accumulation_def Let_def fake_frames_def time_steps_def)
  have tr': "trainable ?L ?self a_seq b_seq"
    using tr by (simp add: trainable_def)
  have in': "true_a_seq ?self = Some a_seq" "true_b_seq ?self = Some b_seq"
    using assms(1,2) by simp_all
  let ?acc' = "after_accumulation ?L ?self a_seq b_seq"
  have G': "loss_G ?acc' = loss_G ?acc"
    by (simp add: after_accumulation_def Let_def accumulated_push_and_pop_upd
        generator_terms_buffers true_frames_def fake_frames_def time_steps_def)
  from backward_trainable_returns[OF in' tr'] obtain other
    where other: "backward ?L ?self = Inr other" by blast
  from backward_Inr_update[OF in' other] obtain ev' where "other = ?acc'\<lparr>events := ev'\<rparr>"
    by (auto simp: update_Inr_iff)
  with G' have "loss_G other = loss_G self'" by (simp add: s')
  with other have ex: "\<exists>other. backward ?L ?self = Inr other \<and> loss_G other = loss_G self'"
    by blast
  from D B A G ex show ?thesis
    unfolding Let_def by (intro conjI)
qed

text \<open>
  The call on the instance, compared with the call on empty buffers that hand every
  frame straight back.
\<close>

theorem discriminator_on_buffered_frames_witness:
  "true_a_seq example_with_input = Some [1, 2] \<and> true_b_seq example_with_input = Some [3, 4]
   \<and> backward example_lib example_with_input = Inr example_trained
   \<and> (let ta = true_frames example_lib example_with_input [1, 2];
           tb = true_frames example_lib example_with_input [3, 4];
           fb = map (call example_lib (G_A_to_B example_with_input))
                  (take (nat (self_T example_with_input)) ta);
           fa = map (call example_lib (G_B_to_A example_with_input))
                  (take (nat (self_T example_with_input)) tb);
           steps = [nat (self_t example_with_input)..<nat (self_T example_with_input)];
           popped_b = push_all example_lib (fake_b_buffer example_with_input) (map (\<lambda>i. fb ! i) steps);
           popped_a = push_all example_lib (fake_a_buffer example_with_input) (map (\<lambda>i. fa ! i) steps)
       in loss_D example_trained = Some (accumulated example_lib (PyFloat 0)
              (concat (map (discriminator_terms example_lib example_with_input ta tb)
                           (zip steps (zip (fst popped_b) (fst popped_a))))))
        \<and> fake_b_buffer example_trained = snd popped_b
        \<and> fake_a_buffer example_trained = snd popped_a
        \<and> loss_G example_trained = Some (accumulated example_lib (PyFloat 0)
              (concat (map (generator_terms example_lib example_with_input ta tb fb fa) steps)))
        \<and> (\<exists>other. backward (example_lib\<lparr>push_and_pop := (\<lambda>buf x. (x, buf))\<rparr>)
                        (example_with_input\<lparr>fake_a_buffer := [], fake_b_buffer := []\<rparr>) = Inr other
                    \<and> loss_G other = loss_G example_trained))"
proof -
  note h = example_inputs example_backward
  from discriminator_on_buffered_frames[OF h, of "\<lambda>buf x. (x, buf)" "[]" "[]"] h show ?thesis
    by (intro conjI)
qed

text \<open>
  Claim C1. The constructor builds two spatial translation models, \<open>G_A_to_B\<close> from
  \<open>A_channel\<close> to \<open>B_channel\<close> channels and \<open>G_B_to_A\<close> from \<open>B_channel\<close> to \<open>A_channel\<close>
  channels; two temporal predictors, \<open>P_A\<close> with \<open>t * A_channel\<close> and \<open>P_B\<close> with
  \<open>t * B_channel\<close> input channels; two discriminators, \<open>D_A\<close> over \<open>A_channel\<close> and \<open>D_B\<close>
  over \<open>B_channel\<close> channels; and two replay buffers, \<open>fake_a_buffer\<close> and
  \<open>fake_b_buffer\<close>. These are all the networks and buffers the module state has.
\<close>

theorem init_constructs_components:
  "G_A_to_B (init L A_channel B_channel T t r dev) = SpatialTranslationModel L A_channel B_channel r
   \<and> G_B_to_A (init L A_channel B_channel T t r dev) = SpatialTranslationModel L B_channel A_channel r
   \<and> P_A (init L A_channel B_channel T t r dev) = TemporalPredictorModel L (t * A_channel) A_channel r
   \<and> P_B (init L A_channel B_channel T t r dev) = TemporalPredictorModel L (t * B_channel) B_channel r
   \<and> D_A (init L A_channel B_channel T t r dev) = Discriminator L A_channel r
   \<and> D_B (init L A_channel B_channel T t r dev) = Discriminator L B_channel r
   \<and> fake_a_buffer (init L A_channel B_channel T t r dev) = ReplayBuffer L
   \<and> fake_b_buffer (init L A_channel B_channel T t r dev) = ReplayBuffer L"
  by (simp add: init_def Let_def)

text \<open>
  Claim C2. For a module in any state it can reach, \<^verbatim>\<open>updateGenerator\<close> returns the sum
  of three terms, added in this order: the adversarial loss (\<^verbatim>\<open>GANLoss\<close>) of
  \<open>net_D(fake_y_next)\<close> against the real target, the mean squared error (\<^verbatim>\<open>MSELoss\<close>)
  between \<open>net_Y_to_X(P_Y(fake_y_tuple))\<close> and \<open>true_x_next\<close> times 10, and the mean
  squared error between \<open>P_X(true_x_tuple)\<close> and \<open>true_x_next\<close> times 10.
\<close>

theorem updateGenerator_three_terms:
  assumes "reachable L A_channel B_channel T t r dev self"
  shows "updateGenerator L self true_x_tuple fake_y_tuple true_x_next fake_y_next P_X P_Y net_Y_to_X net_D
         = t_add L
             (t_add L (GANLoss L (call L net_D fake_y_next) True)
                      (t_mul_f L (MSELoss L (call L net_Y_to_X (call L P_Y fake_y_tuple)) true_x_next) 10))
             (t_mul_f L (MSELoss L (call L P_X true_x_tuple) true_x_next) 10)"
  using reachable_fields[OF assms] by (simp add: updateGenerator_def)

theorem updateGenerator_three_terms_witness:
  "reachable example_lib 3 3 1 1 1 ''cpu'' example_with_input
   \<and> updateGenerator example_lib example_with_input [1] [2] [3] [4] 1 1 2 1
       = t_add example_lib
           (t_add example_lib (GANLoss example_lib (call example_lib 1 [4]) True)
              (t_mul_f example_lib (MSELoss example_lib (call example_lib 2 (call example_lib 1 [2])) [3]) 10))
           (t_mul_f example_lib (MSELoss example_lib (call example_lib 1 [1]) [3]) 10)"
  using updateGenerator_three_terms[OF example_reachable] example_reachable by (intro conjI)

text \<open>
  Claim C3. For a module in any state it can reach, \<^verbatim>\<open>updateDiscriminator\<close> returns
  the adversarial loss of \<open>net_D(true_frame)\<close> against the real target plus the
  adversarial loss of \<open>net_D\<close> on the detached \<open>fake_frame\<close> against the fake target.
\<close>

theorem updateDiscriminator_two_terms:
  assumes "reachable L A_channel B_channel T t r dev self"
  shows "updateDiscriminator L self fake_frame true_frame net_D
         = t_add L (GANLoss L (call L net_D true_frame) True)
                   (GANLoss L (call L net_D (detach L fake_frame)) False)"
  using reachable_fields[OF assms] by (simp add: updateDiscriminator_def)

theorem updateDiscriminator_two_terms_witness:
  "reachable example_lib 3 3 1 1 1 ''cpu'' example_with_input
   \<and> updateDiscriminator example_lib example_with_input [1] [2] 1
       = t_add example_lib (GANLoss example_lib (call example_lib 1 [2]) True)
           (GANLoss example_lib (call example_lib 1 (detach example_lib [1])) False)"
  using updateDiscriminator_two_terms[OF example_reachable] example_reachable by (intro conjI)

text \<open>
  Claim C7. In every state the module can reach there are two optimizers: \<open>optim_G\<close> is
  Adam over the parameters of \<open>G_A_to_B\<close>, \<open>G_B_to_A\<close>, \<open>P_A\<close> and \<open>P_B\<close>, chained in this
  order, with learning rate 0.001, and \<open>optim_D\<close> is Adam over the parameters of \<open>D_A\<close>
  and \<open>D_B\<close> with learning rate 0.0001. A call of \<^verbatim>\<open>backward\<close> that runs to its end
  makes exactly two optimizer steps, one of \<open>optim_G\<close> and then one of \<open>optim_D\<close>, and
  leaves both optimizers in place.
\<close>

theorem two_optimizers:
  assumes "reachable L A_channel B_channel T t r dev self"
  shows "optim_G self = Adam (parameters L (G_A_to_B self) @ parameters L (G_B_to_A self)
                              @ parameters L (P_A self) @ parameters L (P_B self)) 0.001
       \<and> optim_D self = Adam (parameters L (D_A self) @ parameters L (D_B self)) 0.0001
       \<and> (backward L self = Inr self' \<longrightarrow>
            filter is_Step (drop (length (events self)) (events self'))
              = [Step (optim_G self), Step (optim_D self)]
            \<and> optim_G self' = optim_G self \<and> optim_D self' = optim_D self)"
proof -
  have "filter is_Step (drop (length (events self)) (events self'))
              = [Step (optim_G self), Step (optim_D self)]
        \<and> optim_G self' = optim_G self \<and> optim_D self' = optim_D self"
    if r: "backward L self = Inr self'"
  proof -
    from backward_Inr_inputs[OF r] obtain a b
      where ab: "true_a_seq self = Some a" "true_b_seq self = Some b" by blast
    from backward_Inr_update[OF ab r] obtain lg ld where
      "self' = (after_accumulation L self a b)\<lparr> events :=
                events (after_accumulation L self a b) @
                  [Zero_grad (optim_G (after_accumulation L self a b)), Loss_backward lg,
                   Step (optim_G (after_accumulation L self a b)),
                   Zero_grad (optim_D (after_accumulation L self a b)), Loss_backward ld,
                   Step (optim_D (after_accumulation L self a b))] \<rparr>"
      by (auto simp: update_Inr_iff)
    then show ?thesis by (simp add: after_accumulation_def Let_def)
  qed
  with reachable_fields[OF assms] show ?thesis by simp
qed

theorem two_optimizers_witness:
  "reachable example_lib 3 3 1 1 1 ''cpu'' example_with_input
   \<and> backward example_lib example_with_input = Inr example_trained
   \<and> optim_G example_with_input
       = Adam (parameters example_lib (G_A_to_B example_with_input)
               @ parameters example_lib (G_B_to_A example_with_input)
               @ parameters example_lib (P_A example_with_input)
               @ parameters example_lib (P_B example_with_input)) 0.001
   \<and> optim_D example_with_input
       = Adam (parameters example_lib (D_A example_with_input)
               @ parameters example_lib (D_B example_with_input)) 0.0001
   \<and> filter is_Step (drop (length (events example_with_input)) (events example_trained))
       = [Step (optim_G example_with_input), Step (optim_D example_with_input)]
   \<and> optim_G example_trained = optim_G example_with_input
   \<and> optim_D example_trained = optim_D example_with_input"
  using two_optimizers[OF example_reachable, of example_trained] example_reachable example_backward
  by simp

text \<open>
  Claim C10. A module constructed with \<open>T\<close> and \<open>t\<close> has \<open>self.t = t\<close> and
  \<open>self.T = T + t\<close>, which is not \<open>T + t - 1\<close>, in every state it can reach: the
  constructor sets them so, and \<^verbatim>\<open>setInput\<close> and \<^verbatim>\<open>backward\<close>, the methods that assign to
  attributes, keep them (\<^verbatim>\<open>forward\<close>, \<^verbatim>\<open>updateGenerator\<close> and \<^verbatim>\<open>updateDiscriminator\<close>
  assign to no attribute and return no new state). So a call of \<^verbatim>\<open>backward\<close> that runs
  to its end has cut each stored sequence with \<^verbatim>\<open>torch.chunk(seq, T + t, dim = 1)\<close> and has
  accumulated both losses over the time steps \<open>t, \<dots>, T + t - 1\<close>, of which there are
  exactly \<open>T\<close>.
\<close>

theorem tuple_size_and_length_fixed:
  assumes "reachable L A_channel B_channel T t r dev self"
  shows "self_t self = t \<and> self_T self = T + t \<and> self_T self \<noteq> T + t - 1
       \<and> (true_a_seq self = Some a_seq \<and> true_b_seq self = Some b_seq \<and> backward L self = Inr self'
          \<longrightarrow> true_frames L self a_seq = map (squeeze L) (chunk L a_seq (T + t))
            \<and> true_frames L self b_seq = map (squeeze L) (chunk L b_seq (T + t))
            \<and> time_steps self = [nat t..<nat t + nat T]
            \<and> length (time_steps self) = nat T \<and> 0 < T
            \<and> loss_G self' = Some (accumulated L (PyFloat 0)
                 (concat (map (generator_terms L self
                                 (true_frames L self a_seq) (true_frames L self b_seq)
                                 (fake_frames L self (G_A_to_B self) (true_frames L self a_seq))
                                 (fake_frames L self (G_B_to_A self) (true_frames L self b_seq)))
                              (time_steps self))))
            \<and> (\<exists>alter. length alter = nat T
                 \<and> loss_D self' = Some (accumulated L (PyFloat 0)
                      (concat (map (discriminator_terms L self
                                      (true_frames L self a_seq) (true_frames L self b_seq))
                                   (zip (time_steps self) alter))))))"
proof -
  from reachable_fields[OF assms] have tT: "self_t self = t" "self_T self = T + t"
    by simp_all
  have "true_frames L self a_seq = map (squeeze L) (chunk L a_seq (T + t))
            \<and> true_frames L self b_seq = map (squeeze L) (chunk L b_seq (T + t))
            \<and> time_steps self = [nat t..<nat t + nat T]
            \<and> length (time_steps self) = nat T \<and> 0 < T
            \<and> loss_G self' = Some (accumulated L (PyFloat 0)
                 (concat (map (generator_terms L self
                                 (true_frames L self a_seq) (true_frames L self b_seq)
                                 (fake_frames L self (G_A_to_B self) (true_frames L self a_seq))
                                 (fake_frames L self (G_B_to_A self) (true_frames L self b_seq)))
                              (time_steps self))))
            \<and> (\<exists>alter. length alter = nat T
                 \<and> loss_D self' = Some (accumulated L (PyFloat 0)
                      (concat (map (discriminator_terms L self
                                      (true_frames L self a_seq) (true_frames L self b_seq))
                                   (zip (time_steps self) alter)))))"
    if h: "true_a_seq self = Some a_seq" "true_b_seq self = Some b_seq" "backward L self = Inr self'"
  proof -
    from backward_Inr_trainable[OF h] tT have pos: "0 < t" "0 < T"
      by (simp_all add: trainable_def)
    then have nat: "nat (T + t) = nat t + nat T" by simp
    from backward_Inr_update[OF h] obtain ev
      where s': "self' = (after_accumulation L self a_seq b_seq)\<lparr>events := ev\<rparr>"
      by (auto simp: update_Inr_iff)
    let ?fb = "fake_frames L self (G_A_to_B self) (true_frames L self a_seq)"
    let ?fa = "fake_frames L self (G_B_to_A self) (true_frames L self b_seq)"
    let ?alter = "zip (fst (push_all L (fake_b_buffer self) (map ((!) ?fb) (time_steps self))))
                      (fst (push_all L (fake_a_buffer self) (map ((!) ?fa) (time_steps self))))"
    have steps: "time_steps self = [nat t..<nat t + nat T]"
      by (simp add: time_steps_def tT nat)
    have "length ?alter = nat T"
      by (simp add: length_push_all steps)
    moreover have "loss_D self' = Some (accumulated L (PyFloat 0)
                      (concat (map (discriminator_terms L self
                                      (true_frames L self a_seq) (true_frames L self b_seq))
                                   (zip (time_steps self) ?alter))))"
      by (simp add: s' after_accumulation_def Let_def)
    ultimately have D: "\<exists>alter. length alter = nat T
                 \<and> loss_D self' = Some (accumulated L (PyFloat 0)
                      (concat (map (discriminator_terms L self
                                      (true_frames L self a_seq) (true_frames L self b_seq))
                                   (zip (time_steps self) alter))))"
      by blast
    have G: "loss_G self' = Some (accumulated L (PyFloat 0)
                 (concat (map (generator_terms L self
                                 (true_frames L self a_seq) (true_frames L self b_seq) ?fb ?fa)
                              (time_steps self))))"
      by (simp add: s' after_accumulation_def Let_def)
    have fr: "true_frames L self a_seq = map (squeeze L) (chunk L a_seq (T + t))"
      "true_frames L self b_seq = map (squeeze L) (chunk L b_seq (T + t))"
      by (simp_all add: true_frames_def tT)
    have len: "length (time_steps self) = nat T" by (simp add: steps)
    from fr steps len pos(2) G D show ?thesis by (intro conjI)
  qed
  moreover have "self_T self \<noteq> T + t - 1" using tT by simp
  ultimately show ?thesis using tT by blast
qed

theorem tuple_size_and_length_fixed_witness:
  "reachable example_lib 3 3 1 1 1 ''cpu'' example_with_input
   \<and> true_a_seq example_with_input = Some [1, 2] \<and> true_b_seq example_with_input = Some [3, 4]
   \<and> backward example_lib example_with_input = Inr example_trained
   \<and> self_t example_with_input = 1 \<and> self_T example_with_input = 1 + 1
   \<and> time_steps example_with_input = [nat 1..<nat 1 + nat 1]
   \<and> length (time_steps example_with_input) = nat 1"
  using tuple_size_and_length_fixed[OF example_reachable, of "[1, 2]" "[3, 4]" example_trained]
    example_reachable example_inputs example_backward
  by simp

text \<open>
  Claim C8, as amended. \<^verbatim>\<open>forward\<close> raises when all four inputs are \<open>None\<close>, when
  exactly one of \<open>true_a\<close> and \<open>true_a_seq\<close> is \<open>None\<close>, and when that pair is
  consistent and exactly one of \<open>true_b\<close> and \<open>true_b_seq\<close> is \<open>None\<close>. In every other
  case it returns a dict exactly when the tuple size \<open>self.t\<close> is positive and every
  given sequence holds at least \<open>self.t\<close> frames; a given sequence with fewer frames
  makes \<^verbatim>\<open>true_x_seq[i]\<close> raise \<^verbatim>\<open>IndexError\<close>.
\<close>

theorem forward_raises_or_returns:
  "(true_a = None \<and> true_b = None \<and> a_seq = None \<and> b_seq = None
      \<longrightarrow> forward L self true_a true_b a_seq b_seq warning = Inl Exception_all_None)
   \<and> ((true_a = None) \<noteq> (a_seq = None)
      \<longrightarrow> forward L self true_a true_b a_seq b_seq warning = Inl Exception_domain_A)
   \<and> ((true_a = None) = (a_seq = None) \<and> (true_b = None) \<noteq> (b_seq = None)
      \<longrightarrow> isl (forward L self true_a true_b a_seq b_seq warning)
        \<and> (enough_frames self a_seq
             \<longrightarrow> forward L self true_a true_b a_seq b_seq warning = Inl Exception_domain_B))
   \<and> (\<not> (true_a = None \<and> true_b = None \<and> a_seq = None \<and> b_seq = None)
       \<and> (true_a = None) = (a_seq = None) \<and> (true_b = None) = (b_seq = None)
      \<longrightarrow> (\<exists>d. forward L self true_a true_b a_seq b_seq warning = Inr d)
            = (enough_frames self a_seq \<and> enough_frames self b_seq))
   \<and> (true_a \<noteq> None \<and> a_seq = Some frames \<and> 0 < self_t self \<and> int (length frames) < self_t self
      \<longrightarrow> forward L self true_a true_b a_seq b_seq warning = Inl IndexError)
   \<and> ((true_a = None) = (a_seq = None) \<and> enough_frames self a_seq
       \<and> true_b \<noteq> None \<and> b_seq = Some frames \<and> 0 < self_t self \<and> int (length frames) < self_t self
      \<longrightarrow> forward L self true_a true_b a_seq b_seq warning = Inl IndexError)"
proof (intro conjI impI)
  assume "true_a = None \<and> true_b = None \<and> a_seq = None \<and> b_seq = None"
  then show "forward L self true_a true_b a_seq b_seq warning = Inl Exception_all_None"
    by (simp add: forward_all_None)
next
  assume "(true_a = None) \<noteq> (a_seq = None)"
  then show "forward L self true_a true_b a_seq b_seq warning = Inl Exception_domain_A"
    by (rule forward_domain_A)
next
  assume "(true_a = None) = (a_seq = None) \<and> (true_b = None) \<noteq> (b_seq = None)"
  then show "isl (forward L self true_a true_b a_seq b_seq warning)"
    using forward_domain_B(1) by blast
next
  assume "(true_a = None) = (a_seq = None) \<and> (true_b = None) \<noteq> (b_seq = None)"
    and "enough_frames self a_seq"
  then show "forward L self true_a true_b a_seq b_seq warning = Inl Exception_domain_B"
    using forward_domain_B(2) by blast
next
  assume "\<not> (true_a = None \<and> true_b = None \<and> a_seq = None \<and> b_seq = None)
       \<and> (true_a = None) = (a_seq = None) \<and> (true_b = None) = (b_seq = None)"
  then show "(\<exists>d. forward L self true_a true_b a_seq b_seq warning = Inr d)
            = (enough_frames self a_seq \<and> enough_frames self b_seq)"
    unfolding forward_Inr_iff by blast
next
  assume "true_a \<noteq> None \<and> a_seq = Some frames \<and> 0 < self_t self \<and> int (length frames) < self_t self"
  then show "forward L self true_a true_b a_seq b_seq warning = Inl IndexError"
    by (cases true_a) (simp_all add: forward_short_A)
next
  assume "(true_a = None) = (a_seq = None) \<and> enough_frames self a_seq
       \<and> true_b \<noteq> None \<and> b_seq = Some frames \<and> 0 < self_t self \<and> int (length frames) < self_t self"
  then show "forward L self true_a true_b a_seq b_seq warning = Inl IndexError"
    by (cases true_b) (simp_all add: forward_short_B)
qed

theorem forward_raises_or_returns_witness:
  "forward example_lib (example_module 1 1) None None None None False = Inl Exception_all_None
   \<and> forward example_lib (example_module 1 1) (Some [1]) None None None False = Inl Exception_domain_A
   \<and> forward example_lib (example_module 1 1) None (Some [3]) None None False = Inl Exception_domain_B
   \<and> (\<exists>d. forward example_lib (example_module 1 1) (Some [1]) None (Some [[1]]) None False = Inr d)
   \<and> forward example_lib (example_module 30 2) (Some [1]) None (Some [[1]]) None False = Inl IndexError
   \<and> forward example_lib (example_module 30 2) None (Some [3]) None (Some [[3]]) False = Inl IndexError"
  using
    forward_raises_or_returns[where L = example_lib and self = "example_module 1 1"
      and true_a = None and true_b = None and a_seq = None and b_seq = None
      and warning = False and frames = "[]"]
    forward_raises_or_returns[where L = example_lib and self = "example_module 1 1"
      and true_a = "Some [1]" and true_b = None and a_seq = None and b_seq = None
      and warning = False and frames = "[]"]
    forward_raises_or_returns[where L = example_lib and self = "example_module 1 1"
      and true_a = None and true_b = "Some [3]" and a_seq = None and b_seq = None
      and warning = False and frames = "[]"]
    forward_raises_or_returns[where L = example_lib and self = "example_module 1 1"
      and true_a = "Some [1]" and true_b = None and a_seq = "Some [[1]]" and b_seq = None
      and warning = False and frames = "[]"]
    forward_raises_or_returns[where L = example_lib and self = "example_module 30 2"
      and true_a = "Some [1]" and true_b = None and a_seq = "Some [[1]]" and b_seq = None
      and warning = False and frames = "[[1]]"]
    forward_raises_or_returns[where L = example_lib and self = "example_module 30 2"
      and true_a = None and true_b = "Some [3]" and a_seq = None and b_seq = "Some [[3]]"
      and warning = False and frames = "[[3]]"]
  by (simp add: enough_frames_def example_module_t)

text \<open>
  Claim C8 as it was stated says that \<^verbatim>\<open>forward\<close> returns in every case other than
  the three it lists. With \<open>t = 2\<close>, a frame \<open>true_a\<close> and a sequence \<open>true_a_seq\<close> of one
  frame, none of the three cases applies and \<^verbatim>\<open>true_a_seq[1]\<close> raises.
\<close>

theorem forward_returns_counterexample:
  "(Some [1] :: real list option) \<noteq> None \<and> (Some [[1]] :: real list list option) \<noteq> None
   \<and> forward example_lib (example_module 30 2) (Some [1]) None (Some [[1]]) None False
       = Inl IndexError"
  by (simp add: forward_def example_module_def init_def example_lib_def render_def
      bind_result_def py_range_def upto.simps py_index_def torch_cat_def Let_def)

text \<open>
  Claim C9. A dict that \<^verbatim>\<open>forward\<close> returns has exactly the ten keys \<open>true_a\<close>,
  \<open>fake_b_spat\<close>, \<open>fake_b_temp\<close>, \<open>fake_b\<close>, \<open>reco_a\<close>, \<open>true_b\<close>, \<open>fake_a_spat\<close>,
  \<open>fake_a_temp\<close>, \<open>fake_a\<close>, \<open>reco_b\<close>, each once; each of the first five entries is
  \<open>None\<close> if and only if the inputs of domain A were not given, and each of the last
  five is \<open>None\<close> if and only if the inputs of domain B were not given.
\<close>

theorem forward_dict_keys:
  assumes "forward L self true_a true_b a_seq b_seq warning = Inr d"
  shows "map fst d = keys_A @ keys_B \<and> distinct (map fst d) \<and> length d = 10
       \<and> (\<forall>k\<in>set keys_A. (map_of d k = Some None) = (true_a = None \<and> a_seq = None))
       \<and> (\<forall>k\<in>set keys_B. (map_of d k = Some None) = (true_b = None \<and> b_seq = None))"
  using assms unfolding forward_Inr_iff
  by (cases true_a; cases a_seq; cases true_b; cases b_seq) (simp_all add: keys_A_def keys_B_def)

theorem forward_dict_keys_witness:
  "forward example_lib (example_module 1 1) (Some [1]) (Some [3]) (Some [[1]]) (Some [[3]]) False
   = Inr example_dict
   \<and> map fst example_dict = keys_A @ keys_B \<and> distinct (map fst example_dict)
   \<and> length example_dict = 10
   \<and> list_all (\<lambda>k. map_of example_dict k \<noteq> Some None) (keys_A @ keys_B)"
proof -
  note keys = forward_dict_keys[OF example_forward]
  from keys have shape: "map fst example_dict = keys_A @ keys_B"
    "distinct (map fst example_dict)" "length example_dict = 10"
    by blast+
  from keys have "\<forall>k\<in>set keys_A. map_of example_dict k \<noteq> Some None"
    "\<forall>k\<in>set keys_B. map_of example_dict k \<noteq> Some None"
    by simp_all
  then have "list_all (\<lambda>k. map_of example_dict k \<noteq> Some None) (keys_A @ keys_B)"
    by (auto simp: list_all_iff)
  with shape example_forward show ?thesis by blast
qed



end
